theory Spec2Isabelle
  imports Main "HOL-Library.Word"
begin

text \<open>
  The package \<open>dropcam\<close>: a client of the Dropcam web API that logs in, lists the cameras
  of an account, sets a property of a camera, asks for its events and saves an image.
  The functions of \<open>dropcam.go\<close> are modelled over an explicit world (the network and
  the files), with the standard library and the request builder they call.
\<close>

section \<open>Errors and panics\<close>

text \<open>
  Go errors are values. The library builds its own with \<open>errors.New\<close>; the others come
  from \<open>encoding/json\<close>, from the HTTP transport, from reading a response body and from
  writing a file. \<open>Error\<close> is the message of an error (its \<open>Error()\<close> method); the
  messages of the errors of \<open>encoding/json\<close> are shortened.
\<close>

datatype error =
    errors_New string
  | SyntaxError
  | UnmarshalTypeError string
  | TransportError string
  | ReadError string
  | PathError string

fun Error :: "error \<Rightarrow> string" where
  "Error (errors_New s) = s"
| "Error SyntaxError = ''invalid JSON input''"
| "Error (UnmarshalTypeError f) = ''json: cannot unmarshal into Go value of field '' @ f"
| "Error (TransportError s) = s"
| "Error (ReadError s) = s"
| "Error (PathError s) = s"

text \<open>A call either panics (a nil pointer dereference) or returns.\<close>

datatype 'a go = Panic string | Return 'a

section \<open>JSON text\<close>

text \<open>
  Bodies are byte strings. \<open>json_parse\<close> is the syntax check and the parse that
  \<open>json.Unmarshal\<close> performs before it fills a Go value: a lexer and a stack parser over
  the tokens, one token at a time. A number keeps its literal. A string is decoded to
  UTF-8: a four-digit escape becomes the bytes of its code point, two escapes that are a
  pair of surrogates become one code point, a surrogate without its pair becomes U+FFFD,
  and so does every byte that is not part of a UTF-8 sequence. Arrays and objects are
  nested at most \<open>maxNestingDepth\<close> deep.
\<close>

datatype json =
    JNull
  | JBool bool
  | JNumber string
  | JString string
  | JArray "json list"
  | JObject "(string \<times> json) list"

datatype token =
    TLBrace | TRBrace | TLBrack | TRBrack | TColon | TComma
  | TStr string | TNum string | TTrue | TFalse | TNull

definition is_digit :: "char \<Rightarrow> bool" where
  "is_digit c = (48 \<le> (of_char c :: nat) \<and> (of_char c :: nat) \<le> 57)"

definition is_space :: "char \<Rightarrow> bool" where
  "is_space c = (c = CHR 0x20 \<or> c = CHR 0x09 \<or> c = CHR 0x0A \<or> c = CHR 0x0D)"

definition is_numchar :: "char \<Rightarrow> bool" where
  "is_numchar c = (is_digit c \<or> c = CHR ''-'' \<or> c = CHR ''+'' \<or> c = CHR ''.''
     \<or> c = CHR ''e'' \<or> c = CHR ''E'')"

definition hex_val :: "char \<Rightarrow> nat option" where
  "hex_val c = (let n = (of_char c :: nat) in
     if 48 \<le> n \<and> n \<le> 57 then Some (n - 48)
     else if 97 \<le> n \<and> n \<le> 102 then Some (n - 87)
     else if 65 \<le> n \<and> n \<le> 70 then Some (n - 55)
     else None)"

text \<open>The UTF-8 bytes of a code point; a surrogate becomes U+FFFD.\<close>

definition utf8 :: "nat \<Rightarrow> string" where
  "utf8 cp = (let c = (if 0xD800 \<le> cp \<and> cp \<le> 0xDFFF then 0xFFFD else cp) in
     if c < 0x80 then [char_of c]
     else if c < 0x800 then [char_of (0xC0 + c div 64), char_of (0x80 + c mod 64)]
     else if c < 0x10000 then
       [char_of (0xE0 + c div 4096), char_of (0x80 + (c div 64) mod 64),
        char_of (0x80 + c mod 64)]
     else [char_of (0xF0 + c div 262144), char_of (0x80 + (c div 4096) mod 64),
           char_of (0x80 + (c div 64) mod 64), char_of (0x80 + c mod 64)])"

text \<open>
  \<open>rune_size s\<close> is the number of bytes of the UTF-8 sequence at the head of \<open>s\<close>, and 0
  when the bytes there are not UTF-8 (a continuation byte out of its range, an overlong
  form, an encoded surrogate, a code point beyond U+10FFFF, a sequence cut short).
\<close>

definition byte_in :: "nat \<Rightarrow> nat \<Rightarrow> char \<Rightarrow> bool" where
  "byte_in lo hi c = (lo \<le> (of_char c :: nat) \<and> (of_char c :: nat) \<le> hi)"

definition rune_size :: "string \<Rightarrow> nat" where
  "rune_size s = (case s of
       [] \<Rightarrow> 0
     | c # r \<Rightarrow>
         if byte_in 0x00 0x7F c then 1
         else if byte_in 0xC2 0xDF c then
           (case r of
              x # r' \<Rightarrow> if byte_in 0x80 0xBF x then 2 else 0
            | _ \<Rightarrow> 0)
         else if byte_in 0xE0 0xEF c then
           (case r of
              x # y # r' \<Rightarrow>
                if byte_in (if c = CHR 0xE0 then 0xA0 else 0x80)
                           (if c = CHR 0xED then 0x9F else 0xBF) x
                   \<and> byte_in 0x80 0xBF y
                then 3 else 0
            | _ \<Rightarrow> 0)
         else if byte_in 0xF0 0xF4 c then
           (case r of
              x # y # z # r' \<Rightarrow>
                if byte_in (if c = CHR 0xF0 then 0x90 else 0x80)
                           (if c = CHR 0xF4 then 0x8F else 0xBF) x
                   \<and> byte_in 0x80 0xBF y \<and> byte_in 0x80 0xBF z
                then 4 else 0
            | _ \<Rightarrow> 0)
         else 0)"

definition unescape :: "char \<Rightarrow> char option" where
  "unescape e = (if e = CHR 0x22 then Some (CHR 0x22)
     else if e = CHR 0x5C then Some (CHR 0x5C)
     else if e = CHR ''/'' then Some (CHR ''/'')
     else if e = CHR ''b'' then Some (CHR 0x08)
     else if e = CHR ''f'' then Some (CHR 0x0C)
     else if e = CHR ''n'' then Some (CHR 0x0A)
     else if e = CHR ''r'' then Some (CHR 0x0D)
     else if e = CHR ''t'' then Some (CHR 0x09)
     else None)"

text \<open>
  Four hexadecimal digits at the head of the input, and \<open>getu4\<close>: the code of a four-digit
  escape at the head of the input, when there is one.
\<close>

definition hex4 :: "string \<Rightarrow> (nat \<times> string) option" where
  "hex4 s = (case s of
       h1 # h2 # h3 # h4 # r \<Rightarrow>
         (case (hex_val h1, hex_val h2, hex_val h3, hex_val h4) of
            (Some a, Some b, Some c, Some d) \<Rightarrow> Some (((a * 16 + b) * 16 + c) * 16 + d, r)
          | _ \<Rightarrow> None)
     | _ \<Rightarrow> None)"

definition getu4 :: "string \<Rightarrow> (nat \<times> string) option" where
  "getu4 s = (case s of
       b # u # r \<Rightarrow> if b = CHR 0x5C \<and> u = CHR ''u'' then hex4 r else None
     | _ \<Rightarrow> None)"

text \<open>The code point of a pair of surrogates, when the two codes are such a pair.\<close>

definition surrogate_pair :: "nat \<Rightarrow> nat \<Rightarrow> nat option" where
  "surrogate_pair r1 r2 =
     (if 0xD800 \<le> r1 \<and> r1 < 0xDC00 \<and> 0xDC00 \<le> r2 \<and> r2 < 0xE000
      then Some ((r1 - 0xD800) * 1024 + (r2 - 0xDC00) + 0x10000)
      else None)"

lemma hex4_shorter: "hex4 s = Some (n, r) \<Longrightarrow> length r < length s"
  by (auto simp: hex4_def split: list.splits option.splits)

lemma getu4_shorter: "getu4 s = Some (n, r) \<Longrightarrow> length r < length s"
  by (auto simp: getu4_def split: list.splits if_splits dest!: hex4_shorter)

text \<open>
  \<open>scan_string acc s\<close> reads a string literal after its opening quote: the decoded
  bytes and the input after the closing quote.
\<close>

function scan_string :: "string \<Rightarrow> string \<Rightarrow> (string \<times> string) option" where
  "scan_string acc [] = None"
| "scan_string acc (c # cs) =
     (if c = CHR 0x22 then Some (rev acc, cs)
      else if c = CHR 0x5C then
        (case cs of
           [] \<Rightarrow> None
         | e # cs' \<Rightarrow>
             if e = CHR ''u'' then
               (case hex4 cs' of
                  None \<Rightarrow> None
                | Some (r1, rest) \<Rightarrow>
                    (case getu4 rest of
                       None \<Rightarrow> scan_string (rev (utf8 r1) @ acc) rest
                     | Some (r2, rest') \<Rightarrow>
                         (case surrogate_pair r1 r2 of
                            None \<Rightarrow> scan_string (rev (utf8 r1) @ acc) rest
                          | Some r \<Rightarrow> scan_string (rev (utf8 r) @ acc) rest')))
             else (case unescape e of
                     None \<Rightarrow> None
                   | Some x \<Rightarrow> scan_string (x # acc) cs'))
      else if (of_char c :: nat) < 0x20 then None
      else if rune_size (c # cs) = 0 then scan_string (rev (utf8 0xFFFD) @ acc) cs
      else scan_string (rev (take (rune_size (c # cs)) (c # cs)) @ acc)
             (drop (rune_size (c # cs)) (c # cs)))"
  by pat_completeness auto
termination
proof (relation "measure (\<lambda>(acc, s). length s)")
  show "wf (measure (\<lambda>(acc, s). length s))" by simp
qed (auto dest!: hex4_shorter getu4_shorter)

text \<open>The grammar of a number literal: \<open>-? (0 | [1-9][0-9]*) (. [0-9]+)? ([eE] [+-]? [0-9]+)?\<close>.\<close>

definition valid_exp :: "string \<Rightarrow> bool" where
  "valid_exp s = (case s of
       [] \<Rightarrow> True
     | c # r \<Rightarrow> (c = CHR ''e'' \<or> c = CHR ''E'') \<and>
         (let d = (case r of x # r' \<Rightarrow> if x = CHR ''+'' \<or> x = CHR ''-'' then r' else r | [] \<Rightarrow> r)
          in d \<noteq> [] \<and> list_all is_digit d))"

definition valid_frac :: "string \<Rightarrow> bool" where
  "valid_frac s = (case s of
       c # r \<Rightarrow> if c = CHR ''.''
                then takeWhile is_digit r \<noteq> [] \<and> valid_exp (dropWhile is_digit r)
                else valid_exp s
     | [] \<Rightarrow> True)"

definition valid_number :: "string \<Rightarrow> bool" where
  "valid_number s = (let u = (case s of c # r \<Rightarrow> if c = CHR ''-'' then r else s | [] \<Rightarrow> s) in
     case u of
       [] \<Rightarrow> False
     | c # r \<Rightarrow> if c = CHR ''0'' then valid_frac r
                else is_digit c \<and> valid_frac (dropWhile is_digit r))"

fun strip_prefix :: "string \<Rightarrow> string \<Rightarrow> string option" where
  "strip_prefix [] s = Some s"
| "strip_prefix (p # ps) [] = None"
| "strip_prefix (p # ps) (c # cs) = (if p = c then strip_prefix ps cs else None)"

lemma scan_string_step:
  assumes "scan_string acc (c # cs) = Some (x, r)"
  shows "r = cs \<or> (\<exists>acc' ys. scan_string acc' ys = Some (x, r) \<and> length ys \<le> length cs)"
proof (rule disjCI)
  assume no: "\<not> (\<exists>acc' ys. scan_string acc' ys = Some (x, r) \<and> length ys \<le> length cs)"
  then have none: "scan_string acc' ys = Some (x, r) \<Longrightarrow> length cs < length ys" for acc' ys
    by (meson not_le)
  from assms show "r = cs"
    by (auto split: if_splits list.splits option.splits
             dest!: hex4_shorter getu4_shorter none)
qed

lemma scan_string_shorter: "scan_string acc s = Some (x, r) \<Longrightarrow> length r < length s"
proof (induction s arbitrary: acc rule: length_induct)
  case (1 xs)
  show ?case
  proof (cases xs)
    case Nil
    with "1.prems" show ?thesis by simp
  next
    case (Cons c cs)
    with "1.prems" have "scan_string acc (c # cs) = Some (x, r)"
      by simp
    from scan_string_step [OF this] show ?thesis
    proof
      assume "r = cs"
      with Cons show ?thesis by simp
    next
      assume "\<exists>acc' ys. scan_string acc' ys = Some (x, r) \<and> length ys \<le> length cs"
      then obtain acc' ys where ys: "scan_string acc' ys = Some (x, r)" "length ys \<le> length cs"
        by blast
      with "1.IH" Cons have "length r < length ys"
        by (fastforce simp: less_Suc_eq_le)
      with ys(2) Cons show ?thesis by simp
    qed
  qed
qed


lemma strip_prefix_shorter: "strip_prefix p s = Some r \<Longrightarrow> length r \<le> length s"
  by (induction p s rule: strip_prefix.induct) (auto split: if_splits)

function lex :: "string \<Rightarrow> token list option" where
  "lex [] = Some []"
| "lex (c # cs) =
     (if is_space c then lex cs
      else if c = CHR ''{'' then map_option ((#) TLBrace) (lex cs)
      else if c = CHR ''}'' then map_option ((#) TRBrace) (lex cs)
      else if c = CHR ''['' then map_option ((#) TLBrack) (lex cs)
      else if c = CHR '']'' then map_option ((#) TRBrack) (lex cs)
      else if c = CHR '':'' then map_option ((#) TColon) (lex cs)
      else if c = CHR '','' then map_option ((#) TComma) (lex cs)
      else if c = CHR 0x22 then
        (case scan_string [] cs of
           None \<Rightarrow> None
         | Some (s, r) \<Rightarrow> map_option ((#) (TStr s)) (lex r))
      else if c = CHR ''-'' \<or> is_digit c then
        (if valid_number (c # takeWhile is_numchar cs)
         then map_option ((#) (TNum (c # takeWhile is_numchar cs))) (lex (dropWhile is_numchar cs))
         else None)
      else if c = CHR ''t'' then
        (case strip_prefix ''rue'' cs of None \<Rightarrow> None | Some r \<Rightarrow> map_option ((#) TTrue) (lex r))
      else if c = CHR ''f'' then
        (case strip_prefix ''alse'' cs of None \<Rightarrow> None | Some r \<Rightarrow> map_option ((#) TFalse) (lex r))
      else if c = CHR ''n'' then
        (case strip_prefix ''ull'' cs of None \<Rightarrow> None | Some r \<Rightarrow> map_option ((#) TNull) (lex r))
      else None)"
  by pat_completeness auto
termination
proof (relation "measure length")
  show "wf (measure length)" by simp
next
  fix c cs x2 x y
  assume "scan_string [] cs = Some x2" "(x, y) = x2"
  then have "scan_string [] cs = Some (x, y)" by simp
  from scan_string_shorter [OF this] show "(y, c # cs) \<in> measure length" by simp
qed (auto dest: strip_prefix_shorter simp: length_dropWhile_le less_Suc_eq_le)

text \<open>
  The parser keeps the open arrays and objects on a stack and moves by one token:
  \<open>PValue\<close> expects a value (or the close of an array just opened), \<open>PKey\<close> a member
  name (or the close of an object just opened), \<open>PColon\<close> the colon after a name, and
  \<open>PAfter\<close> holds a completed value. The stack of \<open>PValue\<close> has one entry for each
  array and object that is open.
\<close>

datatype ctx = CArr "json list" | CObj "(string \<times> json) list" string

definition maxNestingDepth :: nat where
  "maxNestingDepth = 10000"

datatype pstate =
    PValue "ctx list" bool
  | PKey "ctx list" "(string \<times> json) list" bool
  | PColon "ctx list" "(string \<times> json) list" string
  | PAfter "ctx list" json

fun pstep :: "pstate \<Rightarrow> token \<Rightarrow> pstate option" where
  "pstep (PValue st fresh) t =
     (case t of
        TStr s \<Rightarrow> Some (PAfter st (JString s))
      | TNum n \<Rightarrow> Some (PAfter st (JNumber n))
      | TTrue \<Rightarrow> Some (PAfter st (JBool True))
      | TFalse \<Rightarrow> Some (PAfter st (JBool False))
      | TNull \<Rightarrow> Some (PAfter st JNull)
      | TLBrack \<Rightarrow> if length st < maxNestingDepth then Some (PValue (CArr [] # st) True) else None
      | TLBrace \<Rightarrow> if length st < maxNestingDepth then Some (PKey st [] True) else None
      | TRBrack \<Rightarrow> (case st of
                      CArr [] # st' \<Rightarrow> if fresh then Some (PAfter st' (JArray [])) else None
                    | _ \<Rightarrow> None)
      | _ \<Rightarrow> None)"
| "pstep (PKey st ms fresh) t =
     (case t of
        TStr k \<Rightarrow> Some (PColon st ms k)
      | TRBrace \<Rightarrow> if fresh then Some (PAfter st (JObject [])) else None
      | _ \<Rightarrow> None)"
| "pstep (PColon st ms k) t =
     (case t of TColon \<Rightarrow> Some (PValue (CObj ms k # st) False) | _ \<Rightarrow> None)"
| "pstep (PAfter st v) t =
     (case st of
        [] \<Rightarrow> None
      | CArr xs # st' \<Rightarrow>
          (case t of
             TComma \<Rightarrow> Some (PValue (CArr (v # xs) # st') False)
           | TRBrack \<Rightarrow> Some (PAfter st' (JArray (rev (v # xs))))
           | _ \<Rightarrow> None)
      | CObj ms k # st' \<Rightarrow>
          (case t of
             TComma \<Rightarrow> Some (PKey st' ((k, v) # ms) False)
           | TRBrace \<Rightarrow> Some (PAfter st' (JObject (rev ((k, v) # ms))))
           | _ \<Rightarrow> None))"

fun prun :: "pstate \<Rightarrow> token list \<Rightarrow> pstate option" where
  "prun p [] = Some p"
| "prun p (t # ts) = (case pstep p t of None \<Rightarrow> None | Some p' \<Rightarrow> prun p' ts)"

definition json_parse :: "string \<Rightarrow> json option" where
  "json_parse s =
     (case lex s of
        None \<Rightarrow> None
      | Some ts \<Rightarrow> (case prun (PValue [] False) ts of
                     Some (PAfter [] v) \<Rightarrow> Some v
                   | _ \<Rightarrow> None))"

section \<open>Filling Go values from JSON\<close>

text \<open>
  \<open>json.Unmarshal\<close> first checks the whole text (a \<open>SyntaxError\<close> otherwise), then walks
  the members of an object in the order of the text. A member whose name matches a field
  (the case of letters ignored) is decoded into it; \<open>null\<close> leaves the field as it is; a
  value of the wrong kind is an \<open>UnmarshalTypeError\<close>, and so is a number that does not fit
  the field; a member that matches no field is skipped; a member that comes twice is
  decoded twice, each time from the zero value for a slice (the decoder of Go decodes
  the second time into the elements that the slice already has). The callers drop the
  value whenever an error is returned, so the decoders stop at the first wrong member.
  \<open>int\<close> and \<open>int64\<close> are 64-bit. A \<open>float64\<close> field keeps the literal of its number, and
  an \<open>interface{}\<close> field keeps the JSON value; Go stores the numbers of both as \<open>float64\<close>,
  so a literal that rounds to infinity is refused.
\<close>

definition to_lower :: "char \<Rightarrow> char" where
  "to_lower c = (let n = (of_char c :: nat) in if 65 \<le> n \<and> n \<le> 90 then char_of (n + 32) else c)"

text \<open>
  Names are compared with the case of letters ignored. The field names are ASCII: their
  letters match in either case, and \<open>s\<close> and \<open>k\<close> also match the two letters beyond ASCII
  that fold to them, U+017F (long s, the bytes C5 BF) and U+212A (Kelvin sign, the bytes
  E2 84 AA).
\<close>

fun fold_name :: "string \<Rightarrow> string" where
  "fold_name [] = []"
| "fold_name (c # cs) =
     (if c = CHR 0xC5 \<and> take 1 cs = [CHR 0xBF] then CHR ''s'' # fold_name (drop 1 cs)
      else if c = CHR 0xE2 \<and> take 2 cs = [CHR 0x84, CHR 0xAA] then CHR ''k'' # fold_name (drop 2 cs)
      else to_lower c # fold_name cs)"

definition field_match :: "string \<Rightarrow> string \<Rightarrow> bool" where
  "field_match name key = (fold_name key = fold_name name)"


definition digit_val :: "char \<Rightarrow> nat" where
  "digit_val c = of_char c - 48"

definition int64_literal :: "string \<Rightarrow> int option" where
  "int64_literal s =
     (let neg = (case s of c # r \<Rightarrow> c = CHR ''-'' | [] \<Rightarrow> False);
          ds = (if neg then tl s else s)
      in if ds \<noteq> [] \<and> list_all is_digit ds then
           (let n = foldl (\<lambda>a c. a * 10 + int (digit_val c)) (0::int) ds;
                v = (if neg then - n else n)
            in if - (2 ^ 63) \<le> v \<and> v < 2 ^ 63 then Some v else None)
         else None)"

text \<open>
  \<open>float64_overflows n\<close>: the number of the literal \<open>n\<close> rounds to infinity as a \<open>float64\<close>,
  which is when its magnitude is at least \<open>2^1024 - 2^970\<close>, half a step above the largest
  \<open>float64\<close>. \<open>strconv.ParseFloat\<close> then returns a range error. The literal is
  \<open>m * 10^x\<close> for the integer \<open>m\<close> of its digits.
\<close>

definition digits_val :: "string \<Rightarrow> int" where
  "digits_val ds = foldl (\<lambda>a c. a * 10 + int (digit_val c)) 0 ds"

definition float64_overflows :: "string \<Rightarrow> bool" where
  "float64_overflows s =
     (let u = (case s of c # r \<Rightarrow> if c = CHR ''-'' then r else s | [] \<Rightarrow> s);
          ip = takeWhile is_digit u;
          r1 = dropWhile is_digit u;
          fp = (case r1 of c # r \<Rightarrow> if c = CHR ''.'' then takeWhile is_digit r else [] | [] \<Rightarrow> []);
          r2 = (case r1 of c # r \<Rightarrow> if c = CHR ''.'' then dropWhile is_digit r else r1 | [] \<Rightarrow> []);
          ex = (case r2 of
                  e # c # ds \<Rightarrow> if c = CHR ''-'' then - digits_val ds
                               else if c = CHR ''+'' then digits_val ds
                               else digits_val (c # ds)
                | _ \<Rightarrow> 0);
          m = digits_val (ip @ fp);
          x = ex - int (length fp)
      in if 0 \<le> x then 2 ^ 1024 - 2 ^ 970 \<le> m * 10 ^ nat x
         else (2 ^ 1024 - 2 ^ 970) * 10 ^ nat (- x) \<le> m)"

fun floats_fit :: "json \<Rightarrow> bool" where
  "floats_fit (JNumber n) = (\<not> float64_overflows n)"
| "floats_fit (JArray xs) = list_all floats_fit xs"
| "floats_fit (JObject ms) = list_all (\<lambda>m. floats_fit (snd m)) ms"
| "floats_fit v = True"

definition dec_int64 :: "string \<Rightarrow> json \<Rightarrow> int \<Rightarrow> error + int" where
  "dec_int64 f v old = (case v of
       JNumber n \<Rightarrow> (case int64_literal n of Some i \<Rightarrow> Inr i | None \<Rightarrow> Inl (UnmarshalTypeError f))
     | JNull \<Rightarrow> Inr old
     | _ \<Rightarrow> Inl (UnmarshalTypeError f))"

definition dec_float64 :: "string \<Rightarrow> json \<Rightarrow> string \<Rightarrow> error + string" where
  "dec_float64 f v old = (case v of
       JNumber n \<Rightarrow> if float64_overflows n then Inl (UnmarshalTypeError f) else Inr n
     | JNull \<Rightarrow> Inr old
     | _ \<Rightarrow> Inl (UnmarshalTypeError f))"

definition dec_string :: "string \<Rightarrow> json \<Rightarrow> string \<Rightarrow> error + string" where
  "dec_string f v old = (case v of
       JString s \<Rightarrow> Inr s
     | JNull \<Rightarrow> Inr old
     | _ \<Rightarrow> Inl (UnmarshalTypeError f))"

definition dec_bool :: "string \<Rightarrow> json \<Rightarrow> bool \<Rightarrow> error + bool" where
  "dec_bool f v old = (case v of
       JBool b \<Rightarrow> Inr b
     | JNull \<Rightarrow> Inr old
     | _ \<Rightarrow> Inl (UnmarshalTypeError f))"

definition dec_interface :: "string \<Rightarrow> json \<Rightarrow> error + json option" where
  "dec_interface f v = (case v of
       JNull \<Rightarrow> Inr None
     | _ \<Rightarrow> if floats_fit v then Inr (Some v) else Inl (UnmarshalTypeError f))"

definition dec_element :: "string \<Rightarrow> json \<Rightarrow> error + json" where
  "dec_element f v = (if floats_fit v then Inr v else Inl (UnmarshalTypeError f))"

fun dec_each :: "(json \<Rightarrow> error + 'a) \<Rightarrow> json list \<Rightarrow> error + 'a list" where
  "dec_each d [] = Inr []"
| "dec_each d (x # xs) =
     (case d x of
        Inl e \<Rightarrow> Inl e
      | Inr y \<Rightarrow> (case dec_each d xs of Inl e \<Rightarrow> Inl e | Inr ys \<Rightarrow> Inr (y # ys)))"

definition dec_slice :: "string \<Rightarrow> (json \<Rightarrow> error + 'a) \<Rightarrow> json \<Rightarrow> error + 'a list" where
  "dec_slice f d v = (case v of
       JArray xs \<Rightarrow> dec_each d xs
     | JNull \<Rightarrow> Inr []
     | _ \<Rightarrow> Inl (UnmarshalTypeError f))"

fun dec_members :: "(string \<Rightarrow> json \<Rightarrow> 'r \<Rightarrow> error + 'r) \<Rightarrow> (string \<times> json) list \<Rightarrow> 'r \<Rightarrow> error + 'r" where
  "dec_members setf [] r = Inr r"
| "dec_members setf ((k, v) # ms) r =
     (case setf k v r of Inl e \<Rightarrow> Inl e | Inr r' \<Rightarrow> dec_members setf ms r')"

definition dec_struct :: "string \<Rightarrow> (string \<Rightarrow> json \<Rightarrow> 'r \<Rightarrow> error + 'r) \<Rightarrow> json \<Rightarrow> 'r \<Rightarrow> error + 'r" where
  "dec_struct f setf v r = (case v of
       JObject ms \<Rightarrow> dec_members setf ms r
     | JNull \<Rightarrow> Inr r
     | _ \<Rightarrow> Inl (UnmarshalTypeError f))"

definition put :: "error + 'a \<Rightarrow> ('a \<Rightarrow> 'r) \<Rightarrow> error + 'r" where
  "put x upd = (case x of Inl e \<Rightarrow> Inl e | Inr a \<Rightarrow> Inr (upd a))"

subsection \<open>The status of a body\<close>

record BodyStatus =
  Status :: int

definition BodyStatus_field :: "string \<Rightarrow> json \<Rightarrow> BodyStatus \<Rightarrow> error + BodyStatus" where
  "BodyStatus_field k v b =
     (if field_match ''Status'' k
      then put (dec_int64 ''BodyStatus.Status'' v (BodyStatus.Status b)) (\<lambda>x. b\<lparr>BodyStatus.Status := x\<rparr>)
      else Inr b)"

definition Unmarshal_BodyStatus :: "string \<Rightarrow> BodyStatus \<Rightarrow> error + BodyStatus" where
  "Unmarshal_BodyStatus data b =
     (case json_parse data of
        None \<Rightarrow> Inl SyntaxError
      | Some v \<Rightarrow> dec_struct ''BodyStatus'' BodyStatus_field v b)"

subsection \<open>Events\<close>

text \<open>\<open>Events\<close> is a struct with no field: every member of the object is skipped.\<close>

datatype Events = Events

definition Unmarshal_Events :: "string \<Rightarrow> Events \<Rightarrow> error + Events" where
  "Unmarshal_Events data ev =
     (case json_parse data of
        None \<Rightarrow> Inl SyntaxError
      | Some v \<Rightarrow> dec_struct ''Events'' (\<lambda>k v r. Inr r) v ev)"

subsection \<open>The camera list\<close>

record Owned =
  Capabilities :: "string list"
  Description :: "string"
  DownloadHost :: "string"
  HasBundle :: "bool"
  HoursOfRecordingMax :: "string"
  Id :: "int"
  IsConnected :: "bool"
  IsOnline :: "bool"
  IsPublic :: "bool"
  IsStreaming :: "bool"
  IsStreamingEnabled :: "bool"
  IsTrialMode :: "bool"
  IsTrialWarning :: "bool"
  LastLocalIp :: "string"
  LiveStreamHost :: "string"
  Location :: "json option"
  MacAddress :: "string"
  Name :: "string"
  NestStructureId :: "json option"
  OwnerId :: "string"
  PublicToken :: "string"
  Timezone :: "string"
  TimezoneUtcOffset :: "int"
  Title :: "string"
  TrialDaysLeft :: "int"
  Type :: "int"
  Uuid :: "string"
  Where :: "string"

definition Owned_zero :: Owned where
  "Owned_zero = \<lparr>Capabilities = [],
     Description = '''',
     DownloadHost = '''',
     HasBundle = False,
     HoursOfRecordingMax = ''0'',
     Id = 0,
     IsConnected = False,
     IsOnline = False,
     IsPublic = False,
     IsStreaming = False,
     IsStreamingEnabled = False,
     IsTrialMode = False,
     IsTrialWarning = False,
     LastLocalIp = '''',
     LiveStreamHost = '''',
     Location = None,
     MacAddress = '''',
     Name = '''',
     NestStructureId = None,
     OwnerId = '''',
     PublicToken = '''',
     Timezone = '''',
     TimezoneUtcOffset = 0,
     Title = '''',
     TrialDaysLeft = 0,
     Type = 0,
     Uuid = '''',
     Where = ''''\<rparr>"

definition Owned_field :: "string \<Rightarrow> json \<Rightarrow> Owned \<Rightarrow> error + Owned" where
  "Owned_field k v ow =
     (if field_match ''capabilities'' k then
        put (dec_slice ''Owned.Capabilities'' (\<lambda>x. dec_string ''Owned.Capabilities'' x '''') v) (\<lambda>x. ow\<lparr>Capabilities := x\<rparr>)
      else if field_match ''description'' k then
        put (dec_string ''Owned.Description'' v (Description ow)) (\<lambda>x. ow\<lparr>Description := x\<rparr>)
      else if field_match ''download_host'' k then
        put (dec_string ''Owned.DownloadHost'' v (DownloadHost ow)) (\<lambda>x. ow\<lparr>DownloadHost := x\<rparr>)
      else if field_match ''has_bundle'' k then
        put (dec_bool ''Owned.HasBundle'' v (HasBundle ow)) (\<lambda>x. ow\<lparr>HasBundle := x\<rparr>)
      else if field_match ''hours_of_recording_max'' k then
        put (dec_float64 ''Owned.HoursOfRecordingMax'' v (HoursOfRecordingMax ow)) (\<lambda>x. ow\<lparr>HoursOfRecordingMax := x\<rparr>)
      else if field_match ''id'' k then
        put (dec_int64 ''Owned.Id'' v (Id ow)) (\<lambda>x. ow\<lparr>Id := x\<rparr>)
      else if field_match ''is_connected'' k then
        put (dec_bool ''Owned.IsConnected'' v (IsConnected ow)) (\<lambda>x. ow\<lparr>IsConnected := x\<rparr>)
      else if field_match ''is_online'' k then
        put (dec_bool ''Owned.IsOnline'' v (IsOnline ow)) (\<lambda>x. ow\<lparr>IsOnline := x\<rparr>)
      else if field_match ''is_public'' k then
        put (dec_bool ''Owned.IsPublic'' v (IsPublic ow)) (\<lambda>x. ow\<lparr>IsPublic := x\<rparr>)
      else if field_match ''is_streaming'' k then
        put (dec_bool ''Owned.IsStreaming'' v (IsStreaming ow)) (\<lambda>x. ow\<lparr>IsStreaming := x\<rparr>)
      else if field_match ''is_streaming_enabled'' k then
        put (dec_bool ''Owned.IsStreamingEnabled'' v (IsStreamingEnabled ow)) (\<lambda>x. ow\<lparr>IsStreamingEnabled := x\<rparr>)
      else if field_match ''is_trial_mode'' k then
        put (dec_bool ''Owned.IsTrialMode'' v (IsTrialMode ow)) (\<lambda>x. ow\<lparr>IsTrialMode := x\<rparr>)
      else if field_match ''is_trial_warning'' k then
        put (dec_bool ''Owned.IsTrialWarning'' v (IsTrialWarning ow)) (\<lambda>x. ow\<lparr>IsTrialWarning := x\<rparr>)
      else if field_match ''last_local_ip'' k then
        put (dec_string ''Owned.LastLocalIp'' v (LastLocalIp ow)) (\<lambda>x. ow\<lparr>LastLocalIp := x\<rparr>)
      else if field_match ''live_stream_host'' k then
        put (dec_string ''Owned.LiveStreamHost'' v (LiveStreamHost ow)) (\<lambda>x. ow\<lparr>LiveStreamHost := x\<rparr>)
      else if field_match ''location'' k then
        put (dec_interface ''Owned.Location'' v) (\<lambda>x. ow\<lparr>Location := x\<rparr>)
      else if field_match ''mac_address'' k then
        put (dec_string ''Owned.MacAddress'' v (MacAddress ow)) (\<lambda>x. ow\<lparr>MacAddress := x\<rparr>)
      else if field_match ''name'' k then
        put (dec_string ''Owned.Name'' v (Name ow)) (\<lambda>x. ow\<lparr>Name := x\<rparr>)
      else if field_match ''nest_structure_id'' k then
        put (dec_interface ''Owned.NestStructureId'' v) (\<lambda>x. ow\<lparr>NestStructureId := x\<rparr>)
      else if field_match ''owner_id'' k then
        put (dec_string ''Owned.OwnerId'' v (OwnerId ow)) (\<lambda>x. ow\<lparr>OwnerId := x\<rparr>)
      else if field_match ''public_token'' k then
        put (dec_string ''Owned.PublicToken'' v (PublicToken ow)) (\<lambda>x. ow\<lparr>PublicToken := x\<rparr>)
      else if field_match ''timezone'' k then
        put (dec_string ''Owned.Timezone'' v (Timezone ow)) (\<lambda>x. ow\<lparr>Timezone := x\<rparr>)
      else if field_match ''timezone_utc_offset'' k then
        put (dec_int64 ''Owned.TimezoneUtcOffset'' v (TimezoneUtcOffset ow)) (\<lambda>x. ow\<lparr>TimezoneUtcOffset := x\<rparr>)
      else if field_match ''title'' k then
        put (dec_string ''Owned.Title'' v (Title ow)) (\<lambda>x. ow\<lparr>Title := x\<rparr>)
      else if field_match ''trial_days_left'' k then
        put (dec_int64 ''Owned.TrialDaysLeft'' v (TrialDaysLeft ow)) (\<lambda>x. ow\<lparr>TrialDaysLeft := x\<rparr>)
      else if field_match ''type'' k then
        put (dec_int64 ''Owned.Type'' v (Type ow)) (\<lambda>x. ow\<lparr>Type := x\<rparr>)
      else if field_match ''uuid'' k then
        put (dec_string ''Owned.Uuid'' v (Uuid ow)) (\<lambda>x. ow\<lparr>Uuid := x\<rparr>)
      else if field_match ''where'' k then
        put (dec_string ''Owned.Where'' v (Where ow)) (\<lambda>x. ow\<lparr>Where := x\<rparr>)
      else Inr ow)"

record Items =
  Owned :: "Owned list"
  Subscribed :: "json list"

definition Items_field :: "string \<Rightarrow> json \<Rightarrow> Items \<Rightarrow> error + Items" where
  "Items_field k v it =
     (if field_match ''owned'' k then
        put (dec_slice ''Items.Owned'' (\<lambda>x. dec_struct ''Owned'' Owned_field x Owned_zero) v)
            (\<lambda>x. it\<lparr>Owned := x\<rparr>)
      else if field_match ''subscribed'' k then
        put (dec_slice ''Items.Subscribed'' (dec_element ''Items.Subscribed'') v) (\<lambda>x. it\<lparr>Subscribed := x\<rparr>)
      else Inr it)"

record Cam =
  Items :: "Items list"
  Status :: int
  StatusDescription :: string
  StatusDetail :: string

definition Cam_zero :: Cam where
  "Cam_zero = \<lparr>Items = [], Status = 0, StatusDescription = '''', StatusDetail = ''''\<rparr>"

definition Cam_field :: "string \<Rightarrow> json \<Rightarrow> Cam \<Rightarrow> error + Cam" where
  "Cam_field k v cam =
     (if field_match ''items'' k then
        put (dec_slice ''Cam.Items''
               (\<lambda>x. dec_struct ''Cam.Items'' Items_field x \<lparr>Owned = [], Subscribed = []\<rparr>) v)
            (\<lambda>x. cam\<lparr>Items := x\<rparr>)
      else if field_match ''status'' k then
        put (dec_int64 ''Cam.Status'' v (Cam.Status cam)) (\<lambda>x. cam\<lparr>Cam.Status := x\<rparr>)
      else if field_match ''status_description'' k then
        put (dec_string ''Cam.StatusDescription'' v (StatusDescription cam))
            (\<lambda>x. cam\<lparr>StatusDescription := x\<rparr>)
      else if field_match ''status_detail'' k then
        put (dec_string ''Cam.StatusDetail'' v (StatusDetail cam)) (\<lambda>x. cam\<lparr>StatusDetail := x\<rparr>)
      else Inr cam)"

definition Unmarshal_Cam :: "string \<Rightarrow> Cam \<Rightarrow> error + Cam" where
  "Unmarshal_Cam data cam =
     (case json_parse data of
        None \<Rightarrow> Inl SyntaxError
      | Some v \<Rightarrow> dec_struct ''Cam'' Cam_field v cam)"

section \<open>Query strings and decimal numbers\<close>

text \<open>
  \<open>url.Values\<close> maps a key to its values. \<open>Encode\<close> writes the keys in sorted order,
  each value as \<open>key=value\<close> with both sides escaped, joined by \<open>&\<close>.
\<close>

type_synonym Values = "(string \<times> string list) list"

fun Values_Set :: "Values \<Rightarrow> string \<Rightarrow> string \<Rightarrow> Values" where
  "Values_Set [] k v = [(k, [v])]"
| "Values_Set ((k', xs) # r) k v =
     (if k' = k then (k, [v]) # r else (k', xs) # Values_Set r k v)"

fun Values_Add :: "Values \<Rightarrow> string \<Rightarrow> string \<Rightarrow> Values" where
  "Values_Add [] k v = [(k, [v])]"
| "Values_Add ((k', xs) # r) k v =
     (if k' = k then (k, xs @ [v]) # r else (k', xs) # Values_Add r k v)"

fun str_le :: "string \<Rightarrow> string \<Rightarrow> bool" where
  "str_le [] t = True"
| "str_le (c # cs) [] = False"
| "str_le (c # cs) (d # ds) =
     ((of_char c :: nat) < of_char d \<or> (c = d \<and> str_le cs ds))"

fun insert_key :: "string \<times> string list \<Rightarrow> Values \<Rightarrow> Values" where
  "insert_key e [] = [e]"
| "insert_key e (x # xs) = (if str_le (fst e) (fst x) then e # x # xs else x # insert_key e xs)"

definition sort_keys :: "Values \<Rightarrow> Values" where
  "sort_keys vs = foldr insert_key vs []"

definition hex_digit :: "nat \<Rightarrow> char" where
  "hex_digit n = (if n < 10 then char_of (48 + n) else char_of (55 + n))"

definition unreserved :: "char \<Rightarrow> bool" where
  "unreserved c = (let n = (of_char c :: nat) in
     (48 \<le> n \<and> n \<le> 57) \<or> (65 \<le> n \<and> n \<le> 90) \<or> (97 \<le> n \<and> n \<le> 122)
     \<or> c = CHR ''-'' \<or> c = CHR ''_'' \<or> c = CHR ''.'' \<or> c = CHR ''~'')"

definition escape_char :: "char \<Rightarrow> string" where
  "escape_char c =
     (if unreserved c then [c]
      else if c = CHR 0x20 then ''+''
      else [CHR ''%'', hex_digit ((of_char c :: nat) div 16), hex_digit ((of_char c :: nat) mod 16)])"

definition QueryEscape :: "string \<Rightarrow> string" where
  "QueryEscape s = concat (map escape_char s)"

fun join_amp :: "string list \<Rightarrow> string" where
  "join_amp [] = []"
| "join_amp [x] = x"
| "join_amp (x # y # r) = x @ ''&'' @ join_amp (y # r)"

definition Encode :: "Values \<Rightarrow> string" where
  "Encode vs = join_amp (concat (map (\<lambda>(k, xs). map (\<lambda>x. QueryEscape k @ ''='' @ QueryEscape x) xs)
                                     (sort_keys vs)))"

text \<open>\<open>fmt.Sprintf("%d", x)\<close>: the decimal digits of a signed integer.\<close>

fun decimal :: "nat \<Rightarrow> string" where
  "decimal n = (if n < 10 then [char_of (48 + n)]
                else decimal (n div 10) @ [char_of (48 + n mod 10)])"

declare decimal.simps [simp del]

definition Sprintf_d :: "int \<Rightarrow> string" where
  "Sprintf_d i = (if i < 0 then CHR ''-'' # decimal (nat (- i)) else decimal (nat i))"

text \<open>A \<open>time.Time\<close> is used through \<open>Unix()\<close> alone: the seconds since the epoch, an \<open>int64\<close>.\<close>

type_synonym Time = "64 word"

definition Unix :: "Time \<Rightarrow> 64 word" where
  "Unix t = t"

section \<open>HTTP responses\<close>

text \<open>
  A response body is a reader: the bytes not yet read, and the error the read ends with
  (\<open>None\<close> is the end of the stream). \<open>ioutil.ReadAll\<close> returns all the bytes left with
  that error and leaves the reader drained: a second \<open>ReadAll\<close> returns no byte.
\<close>

record ReadCloser =
  unread :: string
  read_err :: "error option"

definition ReadAll :: "ReadCloser \<Rightarrow> (string \<times> error option) \<times> ReadCloser" where
  "ReadAll rb = ((unread rb, read_err rb), rb\<lparr>unread := []\<rparr>)"

text \<open>
  A header maps a canonical name (\<open>Content-Length\<close>) to its values; \<open>Get\<close> canonicalises
  the name it is given and returns the first value, or the empty string.
\<close>

type_synonym Header = "(string \<times> string list) list"

definition is_upper :: "char \<Rightarrow> bool" where
  "is_upper c = (65 \<le> (of_char c :: nat) \<and> (of_char c :: nat) \<le> 90)"

definition is_lower :: "char \<Rightarrow> bool" where
  "is_lower c = (97 \<le> (of_char c :: nat) \<and> (of_char c :: nat) \<le> 122)"

definition valid_header_byte :: "char \<Rightarrow> bool" where
  "valid_header_byte c = (is_upper c \<or> is_lower c \<or> is_digit c \<or> c \<in> set ''!#$%&*+-.^_`|~'' \<or> c = CHR 0x27)"

fun canonical :: "bool \<Rightarrow> string \<Rightarrow> string" where
  "canonical up [] = []"
| "canonical up (c # cs) =
     (if up \<and> is_lower c then char_of ((of_char c :: nat) - 32)
      else if \<not> up \<and> is_upper c then char_of ((of_char c :: nat) + 32)
      else c) # canonical (c = CHR ''-'') cs"

definition CanonicalMIMEHeaderKey :: "string \<Rightarrow> string" where
  "CanonicalMIMEHeaderKey k = (if list_all valid_header_byte k then canonical True k else k)"

definition Header_Get :: "Header \<Rightarrow> string \<Rightarrow> string" where
  "Header_Get h key = (case map_of h (CanonicalMIMEHeaderKey key) of
       Some (v # _) \<Rightarrow> v
     | _ \<Rightarrow> [])"

record Response =
  Status :: string
  StatusCode :: int
  Header :: Header
  Body :: ReadCloser

section \<open>The transport\<close>

text \<open>
  The library sends every request through a request builder (\<open>fluent\<close>): a method and a
  URL, headers, a JSON payload, an initial backoff interval and a retry count, which is 0
  until \<open>Retry\<close> sets it.
\<close>

record Request =
  req_method :: string
  req_url :: string
  req_header :: "(string \<times> string) list"
  req_json :: "json option"
  req_interval :: int
  req_retry :: int

definition fluent_New :: Request where
  "fluent_New = \<lparr>req_method = '''', req_url = '''', req_header = [], req_json = None,
                  req_interval = 0, req_retry = 0\<rparr>"

definition Post :: "string \<Rightarrow> Request \<Rightarrow> Request" where
  "Post u r = r\<lparr>req_method := ''POST'', req_url := u\<rparr>"

definition Get :: "string \<Rightarrow> Request \<Rightarrow> Request" where
  "Get u r = r\<lparr>req_method := ''GET'', req_url := u\<rparr>"

definition InitialInterval :: "int \<Rightarrow> Request \<Rightarrow> Request" where
  "InitialInterval t r = r\<lparr>req_interval := t\<rparr>"

definition Json :: "json \<Rightarrow> Request \<Rightarrow> Request" where
  "Json j r = r\<lparr>req_json := Some j\<rparr>"

definition Retry :: "int \<Rightarrow> Request \<Rightarrow> Request" where
  "Retry n r = r\<lparr>req_retry := n\<rparr>"

fun set_assoc :: "string \<Rightarrow> string \<Rightarrow> (string \<times> string) list \<Rightarrow> (string \<times> string) list" where
  "set_assoc k v [] = [(k, v)]"
| "set_assoc k v ((k', v') # r) = (if k' = k then (k, v) # r else (k', v') # set_assoc k v r)"

definition SetHeader :: "string \<Rightarrow> string \<Rightarrow> Request \<Rightarrow> Request" where
  "SetHeader k v r = r\<lparr>req_header := set_assoc k v (req_header r)\<rparr>"

definition Millisecond :: int where
  "Millisecond = 1000000"

text \<open>
  The world outside the library: what the network answers to each attempt, in order
  (\<open>script\<close>, then \<open>fallback\<close> for every further attempt), the attempts made so far
  (\<open>sent\<close>), the files on disk, the paths that cannot be written with the error the
  write returns, and the writes asked for so far (\<open>written\<close>).
\<close>

record World =
  script :: "(error + Response) list"
  fallback :: "error + Response"
  sent :: "Request list"
  files :: "string \<rightharpoonup> string"
  unwritable :: "string \<rightharpoonup> error"
  written :: "(string \<times> string) list"

definition next_answer :: "World \<Rightarrow> error + Response" where
  "next_answer w = (case script w of [] \<Rightarrow> fallback w | x # xs \<Rightarrow> x)"

definition round_trip :: "Request \<Rightarrow> World \<Rightarrow> (error + Response) \<times> World" where
  "round_trip req w = (next_answer w, w\<lparr>script := tl (script w), sent := sent w @ [req]\<rparr>)"

text \<open>
  Modelled from the spec: \<open>Send\<close> of the request builder, a third-party package outside
  this repository. Following the Transport component of the specification, a request
  configured with \<open>Retry n\<close> is attempted up to \<open>n\<close> times, an attempt that receives a
  response of any status code ends the call with that response, and when every attempt
  fails the last error is returned with no response. A request with no retry count is
  attempted once.
\<close>

fun send_upto :: "nat \<Rightarrow> Request \<Rightarrow> World \<Rightarrow> (error + Response) \<times> World" where
  "send_upto 0 req w = round_trip req w"
| "send_upto (Suc n) req w =
     (case round_trip req w of
        (Inr resp, w') \<Rightarrow> (Inr resp, w')
      | (Inl e, w') \<Rightarrow> if n = 0 then (Inl e, w') else send_upto n req w')"

text \<open>
  Modelled from the spec: \<open>Send\<close> itself, which makes up to \<open>n\<close> attempts for a request
  configured with \<open>Retry n\<close> and one attempt otherwise.
\<close>

definition Send :: "Request \<Rightarrow> World \<Rightarrow> (error + Response) \<times> World" where
  "Send req w = (if req_retry req > 0 then send_upto (nat (req_retry req)) req w
                 else round_trip req w)"

text \<open>
  \<open>ioutil.WriteFile\<close>: the file holds the data afterwards, unless the path cannot be
  written. Every call is recorded in \<open>written\<close>; the permission bits are left out.
\<close>

definition WriteFile :: "string \<Rightarrow> string \<Rightarrow> World \<Rightarrow> error option \<times> World" where
  "WriteFile path data w =
     (case unwritable w path of
        Some e \<Rightarrow> (Some e, w\<lparr>written := written w @ [(path, data)]\<rparr>)
      | None \<Rightarrow> (None, w\<lparr>files := (files w)(path \<mapsto> data),
                          written := written w @ [(path, data)]\<rparr>))"

section \<open>The library\<close>

text \<open>
  Each method takes the state of its receiver and the world and returns its results with
  the world after the call (and the receiver after the call where it is assigned to).
  A camera list points to the session it was built from: \<open>Dropcam c\<close> is the state of
  that session when the method runs, and the camera \<open>o\<close> of a method is \<open>ow\<close>. Output to
  the log and to the terminal is left out; \<open>Dbg\<close> prints nothing since \<open>Devel\<close> is
  false. The method \<open>Cameras\<close> of a session is \<open>Dropcam_Cameras\<close>, since \<open>Cameras\<close> names
  the record of the camera list.
\<close>

definition NexusBase :: string where
  "NexusBase = ''https://nexusapi.dropcam.com''"

definition ApiBase :: string where
  "ApiBase = ''https://www.dropcam.com''"

definition ApiPath :: string where
  "ApiPath = ''api/v1''"

definition Devel :: bool where
  "Devel = False"

record UserCreds =
  Username :: string
  Password :: string

record Dropcam =
  LoginPath :: string
  CamerasGet :: string
  CamerasUpdate :: string
  CamerasGetVisible :: string
  CamerasGetImagePath :: string
  EventPath :: string
  EventGetClipPath :: string
  PropertiesPath :: string
  Creds :: UserCreds
  Cookie :: string

record Cameras =
  Dropcam :: Dropcam
  Cam :: "Owned list"

definition getBodyRespCode :: "ReadCloser \<Rightarrow> (error + int) \<times> ReadCloser" where
  "getBodyRespCode rb =
     (case ReadAll rb of
        ((body, ignored), rb') \<Rightarrow>
          (case Unmarshal_BodyStatus body \<lparr>BodyStatus.Status = 0\<rparr> of
             Inl err \<Rightarrow> (Inl err, rb')
           | Inr bStat \<Rightarrow> (Inr (BodyStatus.Status bStat), rb')))"

text \<open>
  \<open>postRequest\<close> does not look at the error of \<open>Send\<close>: when no response came back,
  \<open>resp\<close> is nil and reading \<open>resp.Status\<close> for the log panics. The response it returns
  is the one it has read: its body is drained.
\<close>

definition postRequest :: "Dropcam \<Rightarrow> string \<Rightarrow> string \<Rightarrow> json \<Rightarrow> World \<Rightarrow> (error + Response) go \<times> World" where
  "postRequest d url uuid data w =
     (let req = Json data (InitialInterval Millisecond (Post url fluent_New));
          referer = ApiBase @ ''/'' @ ''watch'' @ ''/'' @ uuid;
          req = SetHeader ''Referer'' referer req;
          req = SetHeader ''cookie'' (Cookie d) req
      in case Send req w of
           (Inl err, w') \<Rightarrow> (Panic ''nil pointer dereference'', w')
         | (Inr resp, w') \<Rightarrow>
             (case getBodyRespCode (Body resp) of
                (Inl err, rb) \<Rightarrow>
                  (Return (Inl (errors_New ''Failed to get Reply Response Code'')), w')
              | (Inr rc, rb) \<Rightarrow>
                  if rc \<noteq> 200 then (Return (Inl (errors_New ''Malformed Request'')), w')
                  else (Return (Inr (resp\<lparr>Body := rb\<rparr>)), w')))"

definition getRequest :: "Dropcam \<Rightarrow> string \<Rightarrow> Values \<Rightarrow> World \<Rightarrow> (error + Response) \<times> World" where
  "getRequest d url v w =
     (let req = fluent_New;
          req = (if Cookie d \<noteq> '''' then SetHeader ''cookie'' (Cookie d) req else req);
          reqUrl = url @ ''?'' @ Encode v;
          req = Retry 3 (InitialInterval Millisecond (Get reqUrl req))
      in case Send req w of
           (Inl err, w') \<Rightarrow> (Inl err, w')
         | (Inr resp, w') \<Rightarrow> (Inr resp, w'))"

definition login :: "Dropcam \<Rightarrow> World \<Rightarrow> error option \<times> Dropcam \<times> World" where
  "login d w =
     (let v = Values_Set [] ''username'' (Username (Creds d));
          v = Values_Add v ''password'' (Password (Creds d))
      in case getRequest d (LoginPath d) v w of
           (Inl err, w') \<Rightarrow>
             (Some (errors_New (''Login Request Failed: '' @ Error err)), d, w')
         | (Inr response, w') \<Rightarrow>
             (let d' = d\<lparr>Cookie := Header_Get (Header response) ''Set-Cookie''\<rparr>
              in if Cookie d' = '''' then (Some (errors_New ''Login Returned No Cookie''), d', w')
                 else (None, d', w')))"

definition Init :: "Dropcam \<Rightarrow> string \<Rightarrow> string \<Rightarrow> World \<Rightarrow> (error + Dropcam) \<times> Dropcam \<times> World" where
  "Init d username password w =
     (let d = d\<lparr>LoginPath := ApiBase @ ''/'' @ ApiPath @ ''/'' @ ''login.login''\<rparr>;
          d = d\<lparr>CamerasGet := ApiBase @ ''/'' @ ApiPath @ ''/'' @ ''cameras.get''\<rparr>;
          d = d\<lparr>CamerasUpdate := ApiBase @ ''/'' @ ApiPath @ ''/'' @ ''cameras.update''\<rparr>;
          d = d\<lparr>CamerasGetVisible := ApiBase @ ''/'' @ ApiPath @ ''/'' @ ''cameras.get_visible''\<rparr>;
          d = d\<lparr>CamerasGetImagePath := ApiBase @ ''/'' @ ApiPath @ ''/'' @ ''cameras.get_image''\<rparr>;
          d = d\<lparr>EventPath := NexusBase @ ''/'' @ ''get_cuepoint''\<rparr>;
          d = d\<lparr>EventGetClipPath := NexusBase @ ''/'' @ ''get_event_clip''\<rparr>;
          d = d\<lparr>PropertiesPath := ApiBase @ ''/'' @ ''app/cameras/properties''\<rparr>;
          d = d\<lparr>Creds := (Creds d)\<lparr>Username := username\<rparr>\<rparr>;
          d = d\<lparr>Creds := (Creds d)\<lparr>Password := password\<rparr>\<rparr>;
          d = d\<lparr>Cookie := ''''\<rparr>
      in case login d w of
           (Some err, d', w') \<Rightarrow> (Inl err, d', w')
         | (None, d', w') \<Rightarrow> (Inr d', d', w'))"

text \<open>
  \<open>Cameras\<close> returns a pointer and an error, both of which can be nil: with an empty
  cookie it returns nil together with whatever \<open>login\<close> returns.
\<close>

definition Dropcam_Cameras :: "Dropcam \<Rightarrow> World \<Rightarrow> (Cameras option \<times> error option) \<times> Dropcam \<times> World" where
  "Dropcam_Cameras d w =
     (if Cookie d = '''' then
        (case login d w of (err, d', w') \<Rightarrow> ((None, err), d', w'))
      else
        (let v = Values_Set [] ''group_cameras'' ''True''
         in case getRequest d (CamerasGetVisible d) v w of
              (Inl err, w') \<Rightarrow>
                ((None, Some (errors_New ''Get Visible Cameras Request Failed'')), d, w')
            | (Inr response, w') \<Rightarrow>
                (case ReadAll (Body response) of
                   ((body, overwritten), rb) \<Rightarrow>
                     (case Unmarshal_Cam body Cam_zero of
                        Inl err \<Rightarrow> ((None, Some err), d, w')
                      | Inr cam \<Rightarrow>
                          ((Some \<lparr>Dropcam = d,
                                  Cam = foldl (\<lambda>acc items. foldl (\<lambda>acc owned. acc @ [owned]) acc
                                                 (Owned items)) [] (Items cam)\<rparr>,
                            None), d, w')))))"

record CamProp =
  UUID :: string
  Name :: string
  Value :: string

text \<open>\<open>json.Marshal\<close> of a \<open>CamProp\<close>: its three fields under their tags, in this order.\<close>

definition marshal_CamProp :: "CamProp \<Rightarrow> json" where
  "marshal_CamProp p = JObject [(''camera_uuid'', JString (UUID p)),
                                (''name'', JString (CamProp.Name p)),
                                (''value'', JString (Value p))]"

definition SetProperties :: "Cameras \<Rightarrow> Owned \<Rightarrow> string \<Rightarrow> string \<Rightarrow> World \<Rightarrow> (bool \<times> error option) go \<times> World" where
  "SetProperties c ow name value w =
     (let url = PropertiesPath (Dropcam c) @ Uuid ow;
          props = \<lparr>UUID = Uuid ow, Name = name, Value = value\<rparr>
      in case postRequest (Dropcam c) url (Uuid ow) (marshal_CamProp props) w of
           (Panic msg, w') \<Rightarrow> (Panic msg, w')
         | (Return (Inl err), w') \<Rightarrow> (Return (False, Some (errors_New ''Failed postRequest '')), w')
         | (Return (Inr resp), w') \<Rightarrow>
             (case getBodyRespCode (Body resp) of
                (Inl err, rb) \<Rightarrow>
                  (Return (False, Some (errors_New ''Failed to get Reply Response Code'')), w')
              | (Inr rc, rb) \<Rightarrow>
                  if rc \<noteq> 200
                  then (Return (False, Some (errors_New ''SeProperties Malformed Request'')), w')
                  else (Return (True, None), w')))"

definition GetEvents :: "Cameras \<Rightarrow> Owned \<Rightarrow> Time \<Rightarrow> Time \<Rightarrow> World \<Rightarrow> (error + Events list) \<times> World" where
  "GetEvents c ow st et w =
     (let v = Values_Set [] ''uuid'' (Uuid ow);
          v = Values_Add v ''start_time'' (Sprintf_d (sint (Unix st)));
          v = Values_Add v ''end_time'' (Sprintf_d (sint (Unix et - 60 * 60 * 24)));
          v = Values_Add v ''human'' ''True''
      in case getRequest (Dropcam c) (EventPath (Dropcam c)) v w of
           (Inl err, w') \<Rightarrow> (Inl (errors_New ''Get Visible Cameras Request Failed''), w')
         | (Inr response, w') \<Rightarrow>
             (case ReadAll (Body response) of
                ((body, Some err), rb) \<Rightarrow> (Inl (errors_New ''EVent ioutil.ReadAll failed''), w')
              | ((body, None), rb) \<Rightarrow>
                  (case Unmarshal_Events body Events of
                     Inl err \<Rightarrow> (Inl err, w')
                   | Inr event \<Rightarrow> (Inr [], w'))))"

definition getImage :: "Cameras \<Rightarrow> Owned \<Rightarrow> 64 word \<Rightarrow> Time \<Rightarrow> World \<Rightarrow> (error + string) \<times> World" where
  "getImage c ow width st w =
     (let v = Values_Set [] ''uuid'' (Uuid ow);
          v = Values_Add v ''width'' (Sprintf_d (sint width))
      in case getRequest (Dropcam c) (CamerasGetImagePath (Dropcam c)) v w of
           (Inl err, w') \<Rightarrow> (Inl (errors_New ''Get Image Failed''), w')
         | (Inr response, w') \<Rightarrow>
             (case ReadAll (Body response) of
                ((body, Some err), rb) \<Rightarrow>
                  (Inl (errors_New ''Failed to get Reply Response Code''), w')
              | ((body, None), rb) \<Rightarrow>
                  if StatusCode response \<noteq> 200 \<or> Header_Get (Header response) ''content-length'' = ''0''
                  then (Inl (errors_New ''Malformed Request or image has 0 size''), w')
                  else (Inr body, w')))"

definition SaveImage :: "Cameras \<Rightarrow> Owned \<Rightarrow> string \<Rightarrow> 64 word \<Rightarrow> Time \<Rightarrow> World \<Rightarrow> error option \<times> World" where
  "SaveImage c ow path width st w =
     (case getImage c ow width st w of
        (Inl err, w') \<Rightarrow> (Some err, w')
      | (Inr img, w') \<Rightarrow>
          (case WriteFile path img w' of
             (Some err, w'') \<Rightarrow> (Some err, w'')
           | (None, w'') \<Rightarrow> (None, w'')))"

section \<open>The queries of the requests\<close>

text \<open>The query parameters that each operation builds, named for the statements below.\<close>

abbreviation image_query :: "Owned \<Rightarrow> 64 word \<Rightarrow> Values" where
  "image_query ow width \<equiv>
     Values_Add (Values_Set [] ''uuid'' (Uuid ow)) ''width'' (Sprintf_d (sint width))"

abbreviation login_query :: "Dropcam \<Rightarrow> Values" where
  "login_query d \<equiv>
     Values_Add (Values_Set [] ''username'' (Username (Creds d))) ''password'' (Password (Creds d))"

abbreviation event_query :: "Owned \<Rightarrow> Time \<Rightarrow> Time \<Rightarrow> Values" where
  "event_query ow st et \<equiv>
     Values_Add (Values_Add (Values_Add (Values_Set [] ''uuid'' (Uuid ow))
         ''start_time'' (Sprintf_d (sint (Unix st))))
         ''end_time'' (Sprintf_d (sint (Unix et - 60 * 60 * 24))))
         ''human'' ''True''"

abbreviation cameras_query :: Values where
  "cameras_query \<equiv> Values_Set [] ''group_cameras'' ''True''"

section \<open>Example inputs\<close>

text \<open>
  A session as \<open>new(Dropcam)\<close> gives it, a session after a successful \<open>Init\<close>, one that
  has lost its cookie, a camera, and worlds whose network follows a given script and then
  refuses every connection.
\<close>

definition new_Dropcam :: Dropcam where
  "new_Dropcam = \<lparr>LoginPath = '''', CamerasGet = '''', CamerasUpdate = '''',
     CamerasGetVisible = '''', CamerasGetImagePath = '''', EventPath = '''',
     EventGetClipPath = '''', PropertiesPath = '''',
     Creds = \<lparr>Username = '''', Password = ''''\<rparr>, Cookie = ''''\<rparr>"

definition alice :: Dropcam where
  "alice = \<lparr>LoginPath = ''https://www.dropcam.com/api/v1/login.login'',
     CamerasGet = ''https://www.dropcam.com/api/v1/cameras.get'',
     CamerasUpdate = ''https://www.dropcam.com/api/v1/cameras.update'',
     CamerasGetVisible = ''https://www.dropcam.com/api/v1/cameras.get_visible'',
     CamerasGetImagePath = ''https://www.dropcam.com/api/v1/cameras.get_image'',
     EventPath = ''https://nexusapi.dropcam.com/get_cuepoint'',
     EventGetClipPath = ''https://nexusapi.dropcam.com/get_event_clip'',
     PropertiesPath = ''https://www.dropcam.com/app/cameras/properties'',
     Creds = \<lparr>Username = ''alice'', Password = ''secret''\<rparr>, Cookie = ''abc123''\<rparr>"

definition alice_logged_out :: Dropcam where
  "alice_logged_out = alice\<lparr>Cookie := ''''\<rparr>"

definition front_door :: Owned where
  "front_door = Owned_zero\<lparr>Uuid := ''u1'', Title := ''Front Door''\<rparr>"

definition alice_cameras :: Cameras where
  "alice_cameras = \<lparr>Dropcam = alice, Cam = [front_door]\<rparr>"

definition stale_cameras :: Cameras where
  "stale_cameras = \<lparr>Dropcam = alice_logged_out, Cam = [front_door]\<rparr>"

definition refused :: error where
  "refused = TransportError ''connection refused''"

definition world :: "(error + Response) list \<Rightarrow> World" where
  "world answers = \<lparr>script = answers, fallback = Inl refused, sent = [],
     files = Map.empty, unwritable = Map.empty, written = []\<rparr>"

definition reply :: "int \<Rightarrow> Header \<Rightarrow> string \<Rightarrow> Response" where
  "reply code h b = \<lparr>Status = Sprintf_d code, StatusCode = code, Header = h,
     Body = \<lparr>unread = b, read_err = None\<rparr>\<rparr>"

definition broken_reply :: "int \<Rightarrow> Header \<Rightarrow> string \<Rightarrow> Response" where
  "broken_reply code h b = \<lparr>Status = Sprintf_d code, StatusCode = code, Header = h,
     Body = \<lparr>unread = b, read_err = Some (ReadError ''connection reset by peer'')\<rparr>\<rparr>"

text \<open>Whether a call returned without an error.\<close>

fun succeeded :: "(error + 'a) go \<Rightarrow> bool" where
  "succeeded (Return (Inr x)) = True"
| "succeeded other = False"

section \<open>The transport: what is kept, what is sent\<close>

lemma round_trip_answer [simp]: "fst (round_trip req w) = next_answer w"
  by (simp add: round_trip_def)

lemma round_trip_keeps [simp]:
  "files (snd (round_trip req w)) = files w"
  "unwritable (snd (round_trip req w)) = unwritable w"
  "written (snd (round_trip req w)) = written w"
  by (simp_all add: round_trip_def)

lemma round_trip_sent [simp]: "sent (snd (round_trip req w)) = sent w @ [req]"
  by (simp add: round_trip_def)

lemma send_upto_keeps:
  "files (snd (send_upto n req w)) = files w \<and>
   unwritable (snd (send_upto n req w)) = unwritable w \<and>
   written (snd (send_upto n req w)) = written w"
proof (induction n req w rule: send_upto.induct)
  case (1 req w)
  show ?case by simp
next
  case (2 n req w)
  obtain a w' where rt: "round_trip req w = (a, w')" by (cases "round_trip req w")
  have keep: "files w' = files w" "unwritable w' = unwritable w" "written w' = written w"
    using rt round_trip_keeps [of req w] by simp_all
  show ?case
  proof (cases a)
    case (Inl e)
    show ?thesis
    proof (cases "n = 0")
      case True
      with Inl rt keep show ?thesis by simp
    next
      case False
      with Inl rt keep "2.IH" show ?thesis by simp
    qed
  next
    case (Inr resp)
    with rt keep show ?thesis by simp
  qed
qed

lemma Send_keeps:
  "files (snd (Send req w)) = files w"
  "unwritable (snd (Send req w)) = unwritable w"
  "written (snd (Send req w)) = written w"
  by (simp_all add: Send_def send_upto_keeps)

lemma send_upto_sent:
  "\<exists>k. 1 \<le> k \<and> k \<le> max 1 n \<and> sent (snd (send_upto n req w)) = sent w @ replicate k req"
proof (induction n req w rule: send_upto.induct)
  case (1 req w)
  have "sent (snd (send_upto 0 req w)) = sent w @ replicate 1 req" by simp
  then show ?case by (intro exI [of _ 1]) simp
next
  case (2 n req w)
  obtain a w' where rt: "round_trip req w = (a, w')" by (cases "round_trip req w")
  have s: "sent w' = sent w @ [req]" using rt round_trip_sent [of req w] by simp
  show ?case
  proof (cases a)
    case (Inr resp)
    with rt s have "sent (snd (send_upto (Suc n) req w)) = sent w @ replicate 1 req" by simp
    then show ?thesis by (intro exI [of _ 1]) simp
  next
    case (Inl e)
    show ?thesis
    proof (cases "n = 0")
      case True
      with Inl rt s have "sent (snd (send_upto (Suc n) req w)) = sent w @ replicate 1 req" by simp
      then show ?thesis by (intro exI [of _ 1]) simp
    next
      case False
      from "2.IH" Inl rt False
      obtain k where k: "1 \<le> k" "k \<le> max 1 n" "sent (snd (send_upto n req w')) = sent w' @ replicate k req"
        by auto
      from Inl rt False k s
      have "sent (snd (send_upto (Suc n) req w)) = sent w @ replicate (Suc k) req"
        by (simp add: replicate_app_Cons_same)
      moreover have "1 \<le> Suc k" "Suc k \<le> max 1 (Suc n)" using k False by auto
      ultimately show ?thesis by blast
    qed
  qed
qed

lemma getRequest_world: "snd (getRequest d url v w) = snd (Send (Retry 3 (InitialInterval Millisecond
     (Get (url @ ''?'' @ Encode v) (if Cookie d \<noteq> [] then SetHeader ''cookie'' (Cookie d) fluent_New else fluent_New)))) w)"
  by (simp add: getRequest_def Let_def split: prod.splits sum.splits)

lemma getRequest_keeps:
  "files (snd (getRequest d url v w)) = files w"
  "unwritable (snd (getRequest d url v w)) = unwritable w"
  "written (snd (getRequest d url v w)) = written w"
  by (simp_all only: getRequest_world Send_keeps)

lemma char_eq_char_of: "c = char_of (n::nat) \<longleftrightarrow> take_bit 8 n = of_char c"
  using char_of_eq_iff [of n c] by auto

lemmas json_run = char_of_eq_iff char_eq_char_of json_parse_def is_space_def is_digit_def is_numchar_def valid_number_def
  valid_frac_def valid_exp_def hex_val_def unescape_def utf8_def byte_in_def rune_size_def
  hex4_def getu4_def surrogate_pair_def maxNestingDepth_def digits_val_def
  float64_overflows_def dec_element_def
  dec_struct_def dec_slice_def dec_int64_def dec_string_def dec_bool_def dec_float64_def
  dec_interface_def put_def field_match_def to_lower_def int64_literal_def digit_val_def
  Unmarshal_BodyStatus_def BodyStatus_field_def Unmarshal_Events_def Unmarshal_Cam_def
  Cam_field_def Items_field_def Owned_field_def Cam_zero_def Owned_zero_def

text \<open>
  The decoder beyond ASCII: a member name matches a field in either case and with the
  long s or the Kelvin sign for \<open>s\<close> and \<open>k\<close>; two escapes that are a pair of surrogates are
  one code point, and a surrogate alone or a byte that is not UTF-8 is U+FFFD.
\<close>

lemma decoder_folds_names:
  "field_match ''status'' ''STATUS''
   \<and> field_match ''status'' [CHR 0xC5, CHR 0xBF, CHR ''t'', CHR ''a'', CHR ''t'', CHR ''u'', CHR ''s'']
   \<and> field_match ''public_token'' [CHR ''p'', CHR ''u'', CHR ''b'', CHR ''l'', CHR ''i'', CHR ''c'',
         CHR ''_'', CHR ''t'', CHR ''o'', CHR 0xE2, CHR 0x84, CHR 0xAA, CHR ''e'', CHR ''n'']
   \<and> \<not> field_match ''status'' ''statu''"
  by (simp add: json_run)

lemma decoder_joins_surrogates:
  "json_parse [CHR 0x22, CHR 0x5C, CHR ''u'', CHR ''d'', CHR ''8'', CHR ''3'', CHR ''d'',
               CHR 0x5C, CHR ''u'', CHR ''d'', CHR ''e'', CHR ''0'', CHR ''0'', CHR 0x22]
     = Some (JString [CHR 0xF0, CHR 0x9F, CHR 0x98, CHR 0x80])
   \<and> json_parse [CHR 0x22, CHR 0x5C, CHR ''u'', CHR ''d'', CHR ''8'', CHR ''3'', CHR ''d'', CHR 0x22]
     = Some (JString [CHR 0xEF, CHR 0xBF, CHR 0xBD])
   \<and> json_parse [CHR 0x22, CHR 0xFF, CHR ''a'', CHR 0xC3, CHR 0xA9, CHR 0x22]
     = Some (JString [CHR 0xEF, CHR 0xBF, CHR 0xBD, CHR ''a'', CHR 0xC3, CHR 0xA9])"
  by (simp add: json_run)

lemma send_upto_Suc:
  "send_upto (Suc n) req w =
     (case next_answer w of
        Inr resp \<Rightarrow> (Inr resp, snd (round_trip req w))
      | Inl e \<Rightarrow> if n = 0 then (Inl e, snd (round_trip req w))
                 else send_upto n req (snd (round_trip req w)))"
  by (simp add: round_trip_def split: sum.splits)

lemma send_upto_numeral:
  "send_upto (numeral k) req w =
     (case next_answer w of
        Inr resp \<Rightarrow> (Inr resp, snd (round_trip req w))
      | Inl e \<Rightarrow> if pred_numeral k = 0 then (Inl e, snd (round_trip req w))
                 else send_upto (pred_numeral k) req (snd (round_trip req w)))"
  unfolding numeral_eq_Suc by (rule send_upto_Suc)

declare send_upto.simps(2) [simp del]

lemmas net_run = char_of_eq_iff is_digit_def send_upto_numeral send_upto_Suc Send_def round_trip_def next_answer_def fluent_New_def Post_def Get_def
  InitialInterval_def Json_def Retry_def SetHeader_def Millisecond_def ReadAll_def
  Header_Get_def CanonicalMIMEHeaderKey_def valid_header_byte_def is_upper_def is_lower_def
  WriteFile_def Encode_def sort_keys_def QueryEscape_def escape_char_def
  unreserved_def hex_digit_def Sprintf_d_def decimal.simps Unix_def

lemmas lib_run = getBodyRespCode_def postRequest_def getRequest_def login_def Init_def
  Dropcam_Cameras_def SetProperties_def GetEvents_def getImage_def SaveImage_def
  marshal_CamProp_def ApiBase_def ApiPath_def NexusBase_def Let_def

lemmas ex_run = new_Dropcam_def alice_def alice_logged_out_def front_door_def alice_cameras_def
  stale_cameras_def
  refused_def world_def reply_def broken_reply_def

section \<open>Listing events\<close>

text \<open>
  Claim C9. Whenever \<open>GetEvents\<close> completes without an error, the list it returns is nil:
  the decoded body is dropped, however many events it holds.
\<close>

theorem GetEvents_returns_nil: "fst (GetEvents c ow st et w) = Inr evs \<Longrightarrow> evs = []"
  by (auto simp: GetEvents_def Let_def split: prod.splits sum.splits option.splits)

theorem GetEvents_returns_nil_witness:
  \<open>fst (GetEvents alice_cameras front_door 1000000 2000000
          (world [Inr (reply 200 [] ''{"events":[{"id":1},{"id":2}]}'')])) = Inr []\<close>
proof -
  obtain evs where run: \<open>fst (GetEvents alice_cameras front_door 1000000 2000000
          (world [Inr (reply 200 [] ''{"events":[{"id":1},{"id":2}]}'')])) = Inr evs\<close>
    by (simp add: json_run net_run lib_run ex_run)
  from GetEvents_returns_nil [OF run] run show ?thesis by simp
qed

section \<open>Fetching and saving an image\<close>

lemma getImage_world:
  "snd (getImage c ow width st w) =
   snd (getRequest (Dropcam c) (CamerasGetImagePath (Dropcam c)) (image_query ow width) w)"
  by (simp add: getImage_def Let_def split: prod.splits sum.splits option.splits)

lemma getImage_keeps:
  "files (snd (getImage c ow width st w)) = files w"
  "unwritable (snd (getImage c ow width st w)) = unwritable w"
  "written (snd (getImage c ow width st w)) = written w"
  by (simp_all only: getImage_world getRequest_keeps)

text \<open>
  Claim C6. A response with status 200 whose \<open>content-length\<close> header is \<open>"0"\<close> makes the
  image fetch fail; the fetch returns bytes only for a response with status 200 and a
  \<open>content-length\<close> other than \<open>"0"\<close>, and then the bytes are the body of that response.
\<close>

theorem getImage_needs_nonempty_image:
  "(fst (getRequest (Dropcam c) (CamerasGetImagePath (Dropcam c)) (image_query ow width) w) = Inr response
      \<longrightarrow> StatusCode response = 200
      \<longrightarrow> Header_Get (Header response) ''content-length'' = ''0''
      \<longrightarrow> isl (fst (getImage c ow width st w))
          \<and> (read_err (Body response) = None
               \<longrightarrow> fst (getImage c ow width st w) = Inl (errors_New ''Malformed Request or image has 0 size'')))
   \<and> (fst (getImage c ow width st w) = Inr img
      \<longrightarrow> (\<exists>response.
            fst (getRequest (Dropcam c) (CamerasGetImagePath (Dropcam c)) (image_query ow width) w) = Inr response
            \<and> StatusCode response = 200
            \<and> Header_Get (Header response) ''content-length'' \<noteq> ''0''
            \<and> unread (Body response) = img))"
  by (auto simp: getImage_def Let_def ReadAll_def split: prod.splits sum.splits option.splits)

theorem getImage_needs_nonempty_image_witness:
  "isl (fst (getImage alice_cameras front_door 720 0
              (world [Inr (reply 200 [(''Content-Length'', [''0''])] '''')])))
   \<and> fst (getImage alice_cameras front_door 720 0
              (world [Inr (reply 200 [(''Content-Length'', [''3''])] ''jpg'')])) = Inr ''jpg''"
proof -
  let ?w0 = "world [Inr (reply 200 [(''Content-Length'', [''0''])] '''')]"
  let ?w3 = "world [Inr (reply 200 [(''Content-Length'', [''3''])] ''jpg'')]"
  have r0: "fst (getRequest (Dropcam alice_cameras) (CamerasGetImagePath (Dropcam alice_cameras))
                  (image_query front_door 720) ?w0) = Inr (reply 200 [(''Content-Length'', [''0''])] '''')"
    by (simp add: net_run lib_run ex_run)
  have s0: "StatusCode (reply 200 [(''Content-Length'', [''0''])] '''') = 200"
    by (simp add: reply_def)
  have h0: "Header_Get (Header (reply 200 [(''Content-Length'', [''0''])] '''')) ''content-length'' = ''0''"
    by (simp add: net_run reply_def)
  have ok: "fst (getImage alice_cameras front_door 720 0 ?w3) = Inr ''jpg''"
    by (simp add: net_run lib_run ex_run)
  from getImage_needs_nonempty_image [of alice_cameras front_door 720 ?w0
        "reply 200 [(''Content-Length'', [''0''])] ''''" 0 "''jpg''"] r0 s0 h0
  have "isl (fst (getImage alice_cameras front_door 720 0 ?w0))" by blast
  moreover from getImage_needs_nonempty_image [of alice_cameras front_door 720 ?w3 _ 0 "''jpg''"] ok
  have "fst (getImage alice_cameras front_door 720 0 ?w3) = Inr ''jpg''" by blast
  ultimately show ?thesis by blast
qed

text \<open>
  Claim C10. When the image fetch fails, \<open>SaveImage\<close> returns the error of the fetch and
  asks for no write: the files are as before. When the fetch succeeds, \<open>SaveImage\<close> asks
  for one write, of exactly the fetched bytes to \<open>path\<close>, and where the path can be written
  it returns no error and the file holds those bytes.
\<close>

theorem SaveImage_writes_fetched_bytes:
  "(fst (getImage c ow width st w) = Inl err
      \<longrightarrow> fst (SaveImage c ow path width st w) = Some err
          \<and> written (snd (SaveImage c ow path width st w)) = written w
          \<and> files (snd (SaveImage c ow path width st w)) = files w)
   \<and> (fst (getImage c ow width st w) = Inr img
      \<longrightarrow> written (snd (SaveImage c ow path width st w)) = written w @ [(path, img)]
          \<and> (unwritable w path = None
               \<longrightarrow> fst (SaveImage c ow path width st w) = None
                   \<and> files (snd (SaveImage c ow path width st w)) = (files w)(path \<mapsto> img)))"
proof -
  obtain r w' where g: "getImage c ow width st w = (r, w')" by (cases "getImage c ow width st w")
  have keep: "files w' = files w" "unwritable w' = unwritable w" "written w' = written w"
    using g getImage_keeps [of c ow width st w] by simp_all
  show ?thesis
  proof (cases r)
    case (Inl e)
    with g keep show ?thesis by (simp add: SaveImage_def)
  next
    case (Inr bytes)
    with g keep show ?thesis
      by (auto simp: SaveImage_def WriteFile_def split: option.splits)
  qed
qed

theorem SaveImage_writes_fetched_bytes_witness:
  "fst (SaveImage alice_cameras front_door ''img-0'' 720 0
          (world [Inr (reply 200 [(''Content-Length'', [''0''])] '''')]))
     = Some (errors_New ''Malformed Request or image has 0 size'')
   \<and> written (snd (SaveImage alice_cameras front_door ''img-0'' 720 0
          (world [Inr (reply 200 [(''Content-Length'', [''0''])] '''')]))) = []
   \<and> written (snd (SaveImage alice_cameras front_door ''img-0'' 720 0
          (world [Inr (reply 200 [(''Content-Length'', [''3''])] ''jpg'')]))) = [(''img-0'', ''jpg'')]
   \<and> files (snd (SaveImage alice_cameras front_door ''img-0'' 720 0
          (world [Inr (reply 200 [(''Content-Length'', [''3''])] ''jpg'')]))) ''img-0'' = Some ''jpg''"
proof -
  let ?w0 = "world [Inr (reply 200 [(''Content-Length'', [''0''])] '''')]"
  let ?w3 = "world [Inr (reply 200 [(''Content-Length'', [''3''])] ''jpg'')]"
  have bad: "fst (getImage alice_cameras front_door 720 0 ?w0)
               = Inl (errors_New ''Malformed Request or image has 0 size'')"
    by (simp add: net_run lib_run ex_run)
  have ok: "fst (getImage alice_cameras front_door 720 0 ?w3) = Inr ''jpg''"
    by (simp add: net_run lib_run ex_run)
  have free: "unwritable ?w3 ''img-0'' = None" "written ?w3 = []" "written ?w0 = []"
    "files ?w3 = Map.empty"
    by (simp_all add: world_def)
  from SaveImage_writes_fetched_bytes [of alice_cameras front_door 720 0 ?w0
        "errors_New ''Malformed Request or image has 0 size''" "''img-0''" "''jpg''"] bad free
  have "fst (SaveImage alice_cameras front_door ''img-0'' 720 0 ?w0)
          = Some (errors_New ''Malformed Request or image has 0 size'')
        \<and> written (snd (SaveImage alice_cameras front_door ''img-0'' 720 0 ?w0)) = []"
    by simp
  moreover
  from SaveImage_writes_fetched_bytes [of alice_cameras front_door 720 0 ?w3 _ "''img-0''" "''jpg''"]
    ok free
  have "written (snd (SaveImage alice_cameras front_door ''img-0'' 720 0 ?w3)) = [(''img-0'', ''jpg'')]
        \<and> files (snd (SaveImage alice_cameras front_door ''img-0'' 720 0 ?w3)) ''img-0'' = Some ''jpg''"
    by simp
  ultimately show ?thesis by blast
qed

section \<open>Logging in\<close>

text \<open>What the network answers does not depend on the request.\<close>

lemma send_upto_answer_indep:
  "script w = script w' \<Longrightarrow> fallback w = fallback w' \<Longrightarrow>
   fst (send_upto n req w) = fst (send_upto n req' w')"
proof (induction n arbitrary: w w')
  case 0
  then have "next_answer w = next_answer w'" by (simp add: next_answer_def split: list.splits)
  then show ?case by simp
next
  case (Suc n)
  have same: "next_answer w = next_answer w'" using Suc.prems by (simp add: next_answer_def split: list.splits)
  have "fst (send_upto n req (snd (round_trip req w))) = fst (send_upto n req' (snd (round_trip req' w')))"
    by (rule Suc.IH) (simp_all add: round_trip_def Suc.prems)
  with same show ?case by (simp add: send_upto_Suc split: sum.splits)
qed

lemma getRequest_answer: "fst (getRequest d url v w) = fst (send_upto 3 fluent_New w)"
proof -
  let ?req = "Retry 3 (InitialInterval Millisecond (Get (url @ ''?'' @ Encode v)
      (if Cookie d \<noteq> [] then SetHeader ''cookie'' (Cookie d) fluent_New else fluent_New)))"
  have "fst (getRequest d url v w) = fst (Send ?req w)"
    by (simp add: getRequest_def Let_def split: prod.splits sum.splits)
  also have "\<dots> = fst (send_upto 3 ?req w)"
    by (simp add: Send_def Retry_def)
  also have "\<dots> = fst (send_upto 3 fluent_New w)"
    by (rule send_upto_answer_indep) simp_all
  finally show ?thesis .
qed

lemma getRequest_answer_indep: "fst (getRequest d url v w) = fst (getRequest d' url' v' w)"
  by (simp only: getRequest_answer)

text \<open>
  Claim C3. When the login request gets a response whose \<open>Set-Cookie\<close> header is empty,
  \<open>login\<close> returns the error "Login Returned No Cookie" and the stored cookie is empty
  after the call; so does \<open>Init\<close>, which calls it.
\<close>

theorem login_without_cookie:
  assumes "fst (getRequest d (LoginPath d) (login_query d) w) = Inr response"
    and "Header_Get (Header response) ''Set-Cookie'' = ''''"
  shows "fst (login d w) = Some (errors_New ''Login Returned No Cookie'')
       \<and> Cookie (fst (snd (login d w))) = ''''
       \<and> fst (Init d username password w) = Inl (errors_New ''Login Returned No Cookie'')
       \<and> Cookie (fst (snd (Init d username password w))) = ''''"
proof -
  have one: "fst (login d' w) = Some (errors_New ''Login Returned No Cookie'')
       \<and> Cookie (fst (snd (login d' w))) = ''''" for d'
  proof -
    have "fst (getRequest d' (LoginPath d') (login_query d') w)
            = fst (getRequest d (LoginPath d) (login_query d) w)"
      by (rule getRequest_answer_indep)
    with assms(1) have "fst (getRequest d' (LoginPath d') (login_query d') w) = Inr response"
      by simp
    with assms(2) show ?thesis
      by (auto simp: login_def Let_def split: prod.splits sum.splits)
  qed
  have "fst (Init d username password w) = Inl (errors_New ''Login Returned No Cookie'')
       \<and> Cookie (fst (snd (Init d username password w))) = ''''"
  proof -
    obtain d' where init: "Init d username password w =
        (case login d' w of (Some err, d'', w') \<Rightarrow> (Inl err, d'', w')
                          | (None, d'', w') \<Rightarrow> (Inr d'', d'', w'))"
      by (simp add: Init_def Let_def)
    obtain e d'' w' where l: "login d' w = (e, d'', w')" by (cases "login d' w")
    with one [of d'] have "e = Some (errors_New ''Login Returned No Cookie'')" and "Cookie d'' = []"
      by simp_all
    with init l show ?thesis by simp
  qed
  with one show ?thesis by blast
qed

theorem login_without_cookie_witness:
  \<open>fst (login alice_logged_out (world [Inr (reply 200 [] ''{"status":200}'')]))
      = Some (errors_New ''Login Returned No Cookie'')
   \<and> Cookie (fst (snd (login alice_logged_out (world [Inr (reply 200 [] ''{"status":200}'')])))) = ''''
   \<and> fst (Init alice_logged_out ''alice'' ''secret'' (world [Inr (reply 200 [] ''{"status":200}'')]))
      = Inl (errors_New ''Login Returned No Cookie'')\<close>
proof -
  let ?w = \<open>world [Inr (reply 200 [] ''{"status":200}'')]\<close>
  have got: \<open>fst (getRequest alice_logged_out (LoginPath alice_logged_out)
                  (login_query alice_logged_out) ?w) = Inr (reply 200 [] ''{"status":200}'')\<close>
    by (simp add: net_run lib_run ex_run)
  have none: \<open>Header_Get (Header (reply 200 [] ''{"status":200}'')) ''Set-Cookie'' = ''''\<close>
    by (simp add: net_run reply_def)
  from login_without_cookie [OF got none, of "''alice''" "''secret''"] show ?thesis by simp
qed

section \<open>The query of an event request\<close>

text \<open>A decimal number is made of digits and a sign, which a query string keeps as they are.\<close>

lemma unreserved_digit: "(n::nat) < 10 \<Longrightarrow> unreserved (char_of (48 + n))"
  by (simp add: unreserved_def Let_def)

lemma decimal_unreserved: "list_all unreserved (decimal n)"
proof (induction n rule: decimal.induct)
  case (1 n)
  show ?case
  proof (cases "n < 10")
    case True
    then show ?thesis by (simp add: decimal.simps [of n] unreserved_digit)
  next
    case False
    with "1.IH" show ?thesis by (simp add: decimal.simps [of n] unreserved_digit)
  qed
qed

lemma QueryEscape_unreserved: "list_all unreserved s \<Longrightarrow> QueryEscape s = s"
  by (induction s) (simp_all add: QueryEscape_def escape_char_def)

lemma QueryEscape_Sprintf_d: "QueryEscape (Sprintf_d i) = Sprintf_d i"
  by (rule QueryEscape_unreserved) (simp add: Sprintf_d_def decimal_unreserved unreserved_def)

lemma Encode_event_query:
  "Encode (event_query ow st et) =
     ''end_time='' @ Sprintf_d (sint (Unix et - 86400)) @ ''&human=True&start_time=''
       @ Sprintf_d (sint (Unix st)) @ ''&uuid='' @ QueryEscape (Uuid ow)"
proof -
  have keys: "sort_keys (event_query ow st et) =
      [(''end_time'', [Sprintf_d (sint (Unix et - 86400))]), (''human'', [''True'']),
       (''start_time'', [Sprintf_d (sint (Unix st))]), (''uuid'', [Uuid ow])]"
    by (simp add: sort_keys_def)
  have names: "QueryEscape ''end_time'' = ''end_time''" "QueryEscape ''human'' = ''human''"
    "QueryEscape ''start_time'' = ''start_time''" "QueryEscape ''uuid'' = ''uuid''"
    "QueryEscape ''True'' = ''True''"
    by (simp_all add: QueryEscape_def escape_char_def unreserved_def)
  show ?thesis
    unfolding Encode_def keys by (simp add: names QueryEscape_Sprintf_d)
qed

lemma getRequest_sent:
  "\<exists>k. 1 \<le> k \<and> k \<le> 3 \<and>
       map req_url (sent (snd (getRequest d url v w)))
         = map req_url (sent w) @ replicate k (url @ ''?'' @ Encode v)"
proof -
  let ?req = "Retry 3 (InitialInterval Millisecond (Get (url @ ''?'' @ Encode v)
      (if Cookie d \<noteq> [] then SetHeader ''cookie'' (Cookie d) fluent_New else fluent_New)))"
  have w: "snd (getRequest d url v w) = snd (send_upto 3 ?req w)"
    by (simp add: getRequest_world Send_def Retry_def)
  have u: "req_url ?req = url @ ''?'' @ Encode v"
    by (simp add: Retry_def InitialInterval_def Get_def)
  from send_upto_sent [of 3 ?req w]
  obtain k where k: "1 \<le> k" "k \<le> 3" "sent (snd (send_upto 3 ?req w)) = sent w @ replicate k ?req"
    by auto
  have "map req_url (sent (snd (getRequest d url v w)))
          = map req_url (sent w) @ replicate k (url @ ''?'' @ Encode v)"
    unfolding w k(3) by (simp only: map_append map_replicate u)
  with k(1,2) show ?thesis by blast
qed

lemma minus_day_no_wrap:
  fixes x :: "64 word"
  assumes "- (2 ^ 63) + 86400 \<le> sint x"
  shows "sint (x - 86400) = sint x - 86400"
proof -
  have up: "sint x < 2 ^ 63" using sint_lt [of x] by simp
  have "sint (x - 86400) = signed_take_bit 63 (sint x - sint (86400 :: 64 word))"
    by (simp add: sint_word_diff)
  also have "sint (86400 :: 64 word) = 86400" by simp
  finally have "sint (x - 86400) = signed_take_bit 63 (sint x - 86400)" .
  moreover have "signed_take_bit 63 (sint x - 86400) = sint x - 86400"
    by (rule signed_take_bit_int_eq_self) (use assms up in simp_all)
  ultimately show ?thesis by simp
qed

text \<open>
  Claim C8. Every request that \<open>GetEvents\<close> sends goes to the event endpoint with a query
  that carries the camera uuid, \<open>start_time\<close> equal to \<open>st.Unix()\<close> and \<open>end_time\<close> equal
  to \<open>et.Unix()\<close> minus 86400, computed on \<open>int64\<close>: it is the integer difference for every
  end time at least 86400 seconds above the least \<open>int64\<close>. Between one and three such
  requests are sent.
\<close>

theorem GetEvents_query:
  "(\<exists>k. 1 \<le> k \<and> k \<le> 3 \<and>
        map req_url (sent (snd (GetEvents c ow st et w)))
          = map req_url (sent w) @ replicate k
              (EventPath (Dropcam c) @ ''?end_time='' @ Sprintf_d (sint (Unix et - 86400))
                 @ ''&human=True&start_time='' @ Sprintf_d (sint (Unix st))
                 @ ''&uuid='' @ QueryEscape (Uuid ow)))
   \<and> (- (2 ^ 63) + 86400 \<le> sint (Unix et) \<longrightarrow> sint (Unix et - 86400) = sint (Unix et) - 86400)"
proof -
  have "snd (GetEvents c ow st et w)
          = snd (getRequest (Dropcam c) (EventPath (Dropcam c)) (event_query ow st et) w)"
    by (simp add: GetEvents_def Let_def split: prod.splits sum.splits option.splits)
  with getRequest_sent [of "Dropcam c" "EventPath (Dropcam c)" "event_query ow st et" w]
  have "\<exists>k. 1 \<le> k \<and> k \<le> 3 \<and>
        map req_url (sent (snd (GetEvents c ow st et w)))
          = map req_url (sent w) @ replicate k
              (EventPath (Dropcam c) @ ''?'' @ Encode (event_query ow st et))"
    by simp
  then have first: "\<exists>k. 1 \<le> k \<and> k \<le> 3 \<and>
        map req_url (sent (snd (GetEvents c ow st et w)))
          = map req_url (sent w) @ replicate k
              (EventPath (Dropcam c) @ ''?end_time='' @ Sprintf_d (sint (Unix et - 86400))
                 @ ''&human=True&start_time='' @ Sprintf_d (sint (Unix st))
                 @ ''&uuid='' @ QueryEscape (Uuid ow))"
    unfolding Encode_event_query by simp
  have "- (2 ^ 63) + 86400 \<le> sint (Unix et) \<longrightarrow> sint (Unix et - 86400) = sint (Unix et) - 86400"
    using minus_day_no_wrap [of "Unix et"] by simp
  with first show ?thesis by blast
qed

theorem GetEvents_query_witness:
  \<open>map req_url (sent (snd (GetEvents alice_cameras front_door 1000000 2000000
        (world [Inr (reply 200 [] ''{"events":[]}'')]))))
     = [''https://nexusapi.dropcam.com/get_cuepoint?end_time=1913600&human=True&start_time=1000000&uuid=u1'']
   \<and> sint (Unix 2000000 - 86400) = sint (Unix 2000000) - 86400\<close>
proof -
  have ok: "- (2 ^ 63) + 86400 \<le> sint (Unix 2000000)"
    by (simp add: Unix_def)
  have run: \<open>map req_url (sent (snd (GetEvents alice_cameras front_door 1000000 2000000
        (world [Inr (reply 200 [] ''{"events":[]}'')]))))
     = [''https://nexusapi.dropcam.com/get_cuepoint?end_time=1913600&human=True&start_time=1000000&uuid=u1'']\<close>
    by (simp add: json_run net_run lib_run ex_run)
  from GetEvents_query [of alice_cameras front_door 1000000 2000000
        \<open>world [Inr (reply 200 [] ''{"events":[]}'')]\<close>] ok
  have "sint (Unix 2000000 - 86400) = sint (Unix 2000000) - 86400" by blast
  with run show ?thesis by blast
qed

section \<open>Posting a request\<close>

lemma req_retry_built [simp]:
  "req_retry (SetHeader k v r) = req_retry r"
  "req_retry (Json j r) = req_retry r"
  "req_retry (InitialInterval t r) = req_retry r"
  "req_retry (Post u r) = req_retry r"
  "req_retry (Get u r) = req_retry r"
  "req_retry (Retry n r) = n"
  "req_retry fluent_New = 0"
  by (simp_all add: SetHeader_def Json_def InitialInterval_def Post_def Get_def Retry_def
                    fluent_New_def)

lemma Send_once: "req_retry req = 0 \<Longrightarrow> Send req w = round_trip req w"
  by (simp add: Send_def)

text \<open>A POST is attempted once, whatever the network answers.\<close>

lemma postRequest_sent:
  "sent (snd (postRequest d url uuid data w)) = sent w @
     [\<lparr>req_method = ''POST'', req_url = url,
       req_header = [(''Referer'', ''https://www.dropcam.com/watch/'' @ uuid), (''cookie'', Cookie d)],
       req_json = Some data, req_interval = 1000000, req_retry = 0\<rparr>]"
proof -
  have "snd (postRequest d url uuid data w)
          = snd (round_trip (SetHeader ''cookie'' (Cookie d)
              (SetHeader ''Referer'' (ApiBase @ ''/'' @ ''watch'' @ ''/'' @ uuid)
                (Json data (InitialInterval Millisecond (Post url fluent_New))))) w)"
    by (simp add: postRequest_def Let_def Send_once round_trip_def
             split: prod.splits sum.splits)
  then show ?thesis
    by (simp add: SetHeader_def Json_def InitialInterval_def Post_def fluent_New_def
                  Millisecond_def ApiBase_def)
qed

lemma postRequest_no_answer:
  "next_answer w = Inl e \<Longrightarrow> fst (postRequest d url uuid data w) = Panic ''nil pointer dereference''"
  by (simp add: postRequest_def Let_def Send_once round_trip_def)

lemma postRequest_answer:
  "next_answer w = Inr resp \<Longrightarrow>
   fst (postRequest d url uuid data w) =
     (case getBodyRespCode (Body resp) of
        (Inl err, rb) \<Rightarrow> Return (Inl (errors_New ''Failed to get Reply Response Code''))
      | (Inr rc, rb) \<Rightarrow> if rc \<noteq> 200 then Return (Inl (errors_New ''Malformed Request''))
                        else Return (Inr (resp\<lparr>Body := rb\<rparr>)))"
  by (simp add: postRequest_def Let_def Send_once round_trip_def
           split: prod.splits sum.splits)

text \<open>
  Claim C1, as the code has it. When the network answers a POST, \<open>postRequest\<close> returns
  without an error if and only if the body of the response decodes to a \<open>status\<close> of 200.
  The HTTP status code of the response is not looked at: the four cases of the matrix
  are decided by the status of the body alone.
\<close>

theorem postRequest_judges_by_body:
  assumes "next_answer w = Inr resp"
  shows "succeeded (fst (postRequest d url uuid data w))
           \<longleftrightarrow> fst (getBodyRespCode (Body resp)) = Inr 200"
  using assms by (auto simp: postRequest_answer split: prod.splits sum.splits)

theorem postRequest_judges_by_body_witness:
  \<open>succeeded (fst (postRequest alice ''https://www.dropcam.com/app/cameras/propertiesu1'' ''u1''
        (JObject []) (world [Inr (reply 200 [] ''{"status":200}'')])))
   \<and> \<not> succeeded (fst (postRequest alice ''https://www.dropcam.com/app/cameras/propertiesu1'' ''u1''
        (JObject []) (world [Inr (reply 200 [] ''{"status":403}'')])))\<close>
proof -
  have a200: \<open>next_answer (world [Inr (reply 200 [] ''{"status":200}'')])
                = Inr (reply 200 [] ''{"status":200}'')\<close>
    and a403: \<open>next_answer (world [Inr (reply 200 [] ''{"status":403}'')])
                = Inr (reply 200 [] ''{"status":403}'')\<close>
    by (simp_all add: next_answer_def world_def)
  have b200: \<open>fst (getBodyRespCode (Body (reply 200 [] ''{"status":200}''))) = Inr 200\<close>
    by (simp add: json_run getBodyRespCode_def ReadAll_def reply_def)
  have b403: \<open>fst (getBodyRespCode (Body (reply 200 [] ''{"status":403}''))) = Inr 403\<close>
    by (simp add: json_run getBodyRespCode_def ReadAll_def reply_def)
  from postRequest_judges_by_body [OF a200] b200 postRequest_judges_by_body [OF a403] b403
  show ?thesis by simp
qed

text \<open>
  The claim as stated fails: a response with HTTP status 500 whose body says
  \<open>{"status":200}\<close> is accepted.
\<close>

theorem postRequest_accepts_status_500:
  \<open>StatusCode (reply 500 [] ''{"status":200}'') \<noteq> 200
   \<and> succeeded (fst (postRequest alice ''https://www.dropcam.com/app/cameras/propertiesu1'' ''u1''
        (JObject []) (world [Inr (reply 500 [] ''{"status":200}'')])))\<close>
  by (simp add: json_run net_run lib_run ex_run)

section \<open>Retrying\<close>

text \<open>
  A GET is attempted up to three times: two failures and then a response give the response
  after exactly three attempts, and when no attempt is answered the last error is returned
  after exactly three attempts.
\<close>

lemma getRequest_send_upto:
  "getRequest d url v w = send_upto 3 (Retry 3 (InitialInterval Millisecond
      (Get (url @ ''?'' @ Encode v)
        (if Cookie d \<noteq> [] then SetHeader ''cookie'' (Cookie d) fluent_New else fluent_New)))) w"
  by (cases "Cookie d = []")
     (simp_all add: getRequest_def Let_def Send_def split: prod.splits sum.splits)

lemma getRequest_third_attempt:
  assumes "script w = Inl e1 # Inl e2 # Inr resp # rest"
  shows "fst (getRequest d url v w) = Inr resp
       \<and> length (sent (snd (getRequest d url v w))) = length (sent w) + 3"
  unfolding getRequest_send_upto
  using assms by (simp add: send_upto_numeral send_upto_Suc next_answer_def round_trip_def)

lemma getRequest_gives_up:
  assumes "script w = []" and "fallback w = Inl e"
  shows "fst (getRequest d url v w) = Inl e
       \<and> length (sent (snd (getRequest d url v w))) = length (sent w) + 3"
  unfolding getRequest_send_upto
  using assms by (simp add: send_upto_numeral send_upto_Suc next_answer_def round_trip_def)

text \<open>
  Claim C4, run on a GET and on a POST. Against a network that fails twice and then
  answers, a GET returns the answer after three attempts, and against a network that never
  answers it returns the error after three attempts. \<open>postRequest\<close> sets no retry count
  and does not look at the error of \<open>Send\<close>: against the first network \<open>SetProperties\<close>
  makes one attempt and panics on the nil response, and against the second it panics
  after one attempt too, where the claim has a success on the third attempt and an error
  after three.
\<close>

theorem SetProperties_is_not_retried:
  \<open>fst (getRequest alice (CamerasGetVisible alice) cameras_query
          (world [Inl refused, Inl refused, Inr (reply 200 [] ''{"status":200}'')]))
     = Inr (reply 200 [] ''{"status":200}'')
   \<and> length (sent (snd (getRequest alice (CamerasGetVisible alice) cameras_query
          (world [Inl refused, Inl refused, Inr (reply 200 [] ''{"status":200}'')])))) = 3
   \<and> fst (getRequest alice (CamerasGetVisible alice) cameras_query (world [])) = Inl refused
   \<and> length (sent (snd (getRequest alice (CamerasGetVisible alice) cameras_query (world [])))) = 3
   \<and> fst (SetProperties alice_cameras front_door ''streaming.enabled'' ''true''
          (world [Inl refused, Inl refused, Inr (reply 200 [] ''{"status":200}'')]))
     = Panic ''nil pointer dereference''
   \<and> length (sent (snd (SetProperties alice_cameras front_door ''streaming.enabled'' ''true''
          (world [Inl refused, Inl refused, Inr (reply 200 [] ''{"status":200}'')])))) = 1
   \<and> fst (SetProperties alice_cameras front_door ''streaming.enabled'' ''true'' (world []))
     = Panic ''nil pointer dereference''
   \<and> length (sent (snd (SetProperties alice_cameras front_door ''streaming.enabled'' ''true''
          (world [])))) = 1\<close>
  by (simp add: json_run net_run lib_run ex_run)

section \<open>Setting a property\<close>

lemma SetProperties_world:
  "snd (SetProperties c ow name value w) =
   snd (postRequest (Dropcam c) (PropertiesPath (Dropcam c) @ Uuid ow) (Uuid ow)
          (marshal_CamProp \<lparr>UUID = Uuid ow, Name = name, Value = value\<rparr>) w)"
  by (simp add: SetProperties_def Let_def split: prod.splits go.splits sum.splits)

lemma getBodyRespCode_drains: "unread (snd (getBodyRespCode rb)) = []"
  by (simp add: getBodyRespCode_def ReadAll_def split: sum.splits)

lemma getBodyRespCode_drained: "unread rb = [] \<Longrightarrow> fst (getBodyRespCode rb) = Inl SyntaxError"
proof -
  assume "unread rb = []"
  moreover have "json_parse [] = None" by (simp add: json_parse_def)
  ultimately show ?thesis
    by (simp add: getBodyRespCode_def ReadAll_def Unmarshal_BodyStatus_def)
qed

lemma postRequest_returns_drained:
  assumes "fst (postRequest d url uuid data w) = Return (Inr resp)"
  shows "unread (Body resp) = []"
proof (cases "next_answer w")
  case (Inl e)
  with assms show ?thesis by (simp add: postRequest_no_answer)
next
  case (Inr resp0)
  obtain r rb where g: "getBodyRespCode (Body resp0) = (r, rb)"
    by (cases "getBodyRespCode (Body resp0)")
  then have "unread rb = []" using getBodyRespCode_drains [of "Body resp0"] by simp
  with assms g show ?thesis
    by (auto simp: postRequest_answer [OF Inr] split: sum.splits if_splits)
qed

text \<open>
  \<open>SetProperties\<close> reads the body of the response a second time, after \<open>postRequest\<close> has
  drained it: it never returns \<open>(true, nil)\<close>.
\<close>

lemma SetProperties_never_true:
  "fst (SetProperties c ow name value w) \<noteq> Return (True, None)"
proof -
  let ?p = "postRequest (Dropcam c) (PropertiesPath (Dropcam c) @ Uuid ow) (Uuid ow)
              (marshal_CamProp \<lparr>UUID = Uuid ow, Name = name, Value = value\<rparr>) w"
  obtain r w' where p: "?p = (r, w')" by (cases ?p)
  show ?thesis
  proof (cases r)
    case (Panic msg)
    with p show ?thesis by (simp add: SetProperties_def Let_def)
  next
    case (Return x)
    show ?thesis
    proof (cases x)
      case (Inl err)
      with Return p show ?thesis by (simp add: SetProperties_def Let_def)
    next
      case (Inr resp)
      have "fst ?p = Return (Inr resp)" using p Return Inr by simp
      then have "unread (Body resp) = []" by (rule postRequest_returns_drained)
      then have "fst (getBodyRespCode (Body resp)) = Inl SyntaxError"
        by (rule getBodyRespCode_drained)
      then obtain rb where "getBodyRespCode (Body resp) = (Inl SyntaxError, rb)"
        by (cases "getBodyRespCode (Body resp)") simp
      with Return Inr p show ?thesis
        by (simp add: SetProperties_def Let_def)
    qed
  qed
qed

text \<open>
  Claim C5, as the code has it. \<open>SetProperties\<close> posts, once, the JSON object with the
  camera uuid, the name and the value to the properties path followed by the uuid, with
  the referer and the cookie. When the body of the response decodes to a status other than
  200, such as 403, it returns \<open>false\<close> with the error "Failed postRequest ", which does
  not carry the status.
\<close>

theorem SetProperties_posts_and_rejects:
  "sent (snd (SetProperties c ow name value w)) = sent w @
     [\<lparr>req_method = ''POST'', req_url = PropertiesPath (Dropcam c) @ Uuid ow,
       req_header = [(''Referer'', ''https://www.dropcam.com/watch/'' @ Uuid ow),
                     (''cookie'', Cookie (Dropcam c))],
       req_json = Some (JObject [(''camera_uuid'', JString (Uuid ow)),
                                 (''name'', JString name), (''value'', JString value)]),
       req_interval = 1000000, req_retry = 0\<rparr>]
   \<and> (next_answer w = Inr resp \<longrightarrow> fst (getBodyRespCode (Body resp)) = Inr rc \<longrightarrow> rc \<noteq> 200
        \<longrightarrow> fst (SetProperties c ow name value w)
              = Return (False, Some (errors_New ''Failed postRequest '')))"
proof -
  have "sent (snd (SetProperties c ow name value w)) = sent w @
     [\<lparr>req_method = ''POST'', req_url = PropertiesPath (Dropcam c) @ Uuid ow,
       req_header = [(''Referer'', ''https://www.dropcam.com/watch/'' @ Uuid ow),
                     (''cookie'', Cookie (Dropcam c))],
       req_json = Some (JObject [(''camera_uuid'', JString (Uuid ow)),
                                 (''name'', JString name), (''value'', JString value)]),
       req_interval = 1000000, req_retry = 0\<rparr>]"
    by (simp only: SetProperties_world postRequest_sent) (simp add: marshal_CamProp_def)
  moreover have "fst (SetProperties c ow name value w)
              = Return (False, Some (errors_New ''Failed postRequest ''))"
    if a: "next_answer w = Inr resp" and b: "fst (getBodyRespCode (Body resp)) = Inr rc"
      and c: "rc \<noteq> 200"
  proof -
    let ?p = "postRequest (Dropcam c) (PropertiesPath (Dropcam c) @ Uuid ow) (Uuid ow)
                (marshal_CamProp \<lparr>UUID = Uuid ow, Name = name, Value = value\<rparr>) w"
    have "fst ?p = Return (Inl (errors_New ''Malformed Request''))"
      using b c by (auto simp: postRequest_answer [OF a] split: prod.splits sum.splits)
    then obtain w' where "?p = (Return (Inl (errors_New ''Malformed Request'')), w')"
      by (cases ?p) simp
    then show ?thesis by (simp add: SetProperties_def Let_def)
  qed
  ultimately show ?thesis by blast
qed

theorem SetProperties_posts_and_rejects_witness:
  \<open>fst (SetProperties alice_cameras front_door ''streaming.enabled'' ''true''
          (world [Inr (reply 200 [] ''{"status":403}'')]))
     = Return (False, Some (errors_New ''Failed postRequest ''))
   \<and> map req_json (sent (snd (SetProperties alice_cameras front_door ''streaming.enabled'' ''true''
          (world [Inr (reply 200 [] ''{"status":403}'')]))))
     = [Some (JObject [(''camera_uuid'', JString ''u1''), (''name'', JString ''streaming.enabled''),
                       (''value'', JString ''true'')])]\<close>
proof -
  let ?w = \<open>world [Inr (reply 200 [] ''{"status":403}'')]\<close>
  have a: \<open>next_answer ?w = Inr (reply 200 [] ''{"status":403}'')\<close>
    by (simp add: next_answer_def world_def)
  have b: \<open>fst (getBodyRespCode (Body (reply 200 [] ''{"status":403}''))) = Inr 403\<close>
    by (simp add: json_run getBodyRespCode_def ReadAll_def reply_def)
  have c: "(403::int) \<noteq> 200" by simp
  have u: "Uuid front_door = ''u1''" "sent ?w = []"
    by (simp_all add: front_door_def world_def)
  from SetProperties_posts_and_rejects [of alice_cameras front_door "''streaming.enabled''"
         "''true''" ?w \<open>reply 200 [] ''{"status":403}''\<close> 403] a b c u
  show ?thesis by simp
qed

text \<open>
  The claim as stated fails twice: when the server answers \<open>{"status":200}\<close> the call
  returns \<open>false\<close> with an error, and when it answers \<open>{"status":403}\<close> the error is the
  one returned for any other rejection, such as \<open>{"status":500}\<close>.
\<close>

theorem SetProperties_fails_on_status_200:
  \<open>fst (SetProperties alice_cameras front_door ''streaming.enabled'' ''true''
          (world [Inr (reply 200 [] ''{"status":200}'')]))
     = Return (False, Some (errors_New ''Failed to get Reply Response Code''))
   \<and> fst (SetProperties alice_cameras front_door ''streaming.enabled'' ''true''
          (world [Inr (reply 403 [] ''{"status":403}'')]))
     = Return (False, Some (errors_New ''Failed postRequest ''))
   \<and> fst (SetProperties alice_cameras front_door ''streaming.enabled'' ''true''
          (world [Inr (reply 500 [] ''{"status":500}'')]))
     = Return (False, Some (errors_New ''Failed postRequest ''))\<close>
  by (simp add: json_run net_run lib_run ex_run)

section \<open>Operations on a session without a cookie\<close>

lemma Encode_credentials:
  "Encode [(''username'', [u]), (''password'', [p])] =
     ''password='' @ QueryEscape p @ ''&username='' @ QueryEscape u"
proof -
  have keys: "sort_keys [(''username'', [u]), (''password'', [p])] =
      [(''password'', [p]), (''username'', [u])]"
    by (simp add: sort_keys_def)
  have names: "QueryEscape ''password'' = ''password''" "QueryEscape ''username'' = ''username''"
    by (simp_all add: QueryEscape_def escape_char_def unreserved_def)
  show ?thesis
    unfolding Encode_def keys by (simp add: names)
qed

lemma login_world:
  "snd (snd (login d w)) = snd (getRequest d (LoginPath d) (login_query d) w)"
  by (simp add: login_def Let_def split: prod.splits sum.splits)

lemma Cameras_without_cookie:
  "Cookie d = [] \<Longrightarrow> Dropcam_Cameras d w = ((None, fst (login d w)), snd (login d w))"
  by (simp add: Dropcam_Cameras_def split: prod.splits)

lemma SaveImage_sent:
  "sent (snd (SaveImage c ow path width st w)) = sent (snd (getImage c ow width st w))"
  by (simp add: SaveImage_def WriteFile_def split: prod.splits sum.splits option.splits)

text \<open>
  Claim C2, as the code has it. Of the public operations only \<open>Cameras\<close> looks at the
  cookie. With an empty cookie the first request it sends is the login request, which
  carries the stored user name and password, and when \<open>login\<close> fails \<open>Cameras\<close> returns
  that error and no camera list. \<open>GetEvents\<close>, \<open>SaveImage\<close> and \<open>SetProperties\<close> send
  their own request whatever the cookie is.
\<close>

theorem Cameras_logs_in_first:
  "(Cookie d = '''' \<longrightarrow>
      (\<exists>rest. map req_url (sent (snd (snd (Dropcam_Cameras d w))))
         = map req_url (sent w)
           @ (LoginPath d @ ''?password='' @ QueryEscape (Password (Creds d))
                @ ''&username='' @ QueryEscape (Username (Creds d))) # rest)
      \<and> (fst (login d w) = Some err \<longrightarrow> fst (Dropcam_Cameras d w) = (None, Some err)))
   \<and> (\<exists>k. 1 \<le> k \<and> k \<le> 3 \<and>
          map req_url (sent (snd (GetEvents c ow st et w)))
            = map req_url (sent w) @ replicate k
                (EventPath (Dropcam c) @ ''?'' @ Encode (event_query ow st et)))
   \<and> (\<exists>k. 1 \<le> k \<and> k \<le> 3 \<and>
          map req_url (sent (snd (SaveImage c ow path width st w)))
            = map req_url (sent w) @ replicate k
                (CamerasGetImagePath (Dropcam c) @ ''?'' @ Encode (image_query ow width)))
   \<and> map req_url (sent (snd (SetProperties c ow name value w)))
        = map req_url (sent w) @ [PropertiesPath (Dropcam c) @ Uuid ow]"
proof -
  have cameras: "(\<exists>rest. map req_url (sent (snd (snd (Dropcam_Cameras d w))))
         = map req_url (sent w)
           @ (LoginPath d @ ''?password='' @ QueryEscape (Password (Creds d))
                @ ''&username='' @ QueryEscape (Username (Creds d))) # rest)
      \<and> (fst (login d w) = Some err \<longrightarrow> fst (Dropcam_Cameras d w) = (None, Some err))"
    if empty: "Cookie d = []"
  proof -
    from getRequest_sent [of d "LoginPath d" "login_query d" w]
    obtain k where k: "1 \<le> k"
      "map req_url (sent (snd (getRequest d (LoginPath d) (login_query d) w)))
         = map req_url (sent w) @ replicate k (LoginPath d @ ''?'' @ Encode (login_query d))"
      by blast
    from k(1) obtain j where j: "k = Suc j" by (cases k) simp_all
    have "map req_url (sent (snd (snd (Dropcam_Cameras d w))))
         = map req_url (sent w)
           @ (LoginPath d @ ''?password='' @ QueryEscape (Password (Creds d))
                @ ''&username='' @ QueryEscape (Username (Creds d)))
             # replicate j (LoginPath d @ ''?'' @ Encode (login_query d))"
      using k(2) unfolding j
      by (simp add: Cameras_without_cookie [OF empty] login_world Encode_credentials)
    then show ?thesis
      by (auto simp: Cameras_without_cookie [OF empty])
  qed
  have events: "\<exists>k. 1 \<le> k \<and> k \<le> 3 \<and>
          map req_url (sent (snd (GetEvents c ow st et w)))
            = map req_url (sent w) @ replicate k
                (EventPath (Dropcam c) @ ''?'' @ Encode (event_query ow st et))"
  proof -
    have "snd (GetEvents c ow st et w)
            = snd (getRequest (Dropcam c) (EventPath (Dropcam c)) (event_query ow st et) w)"
      by (simp add: GetEvents_def Let_def split: prod.splits sum.splits option.splits)
    with getRequest_sent [of "Dropcam c" "EventPath (Dropcam c)" "event_query ow st et" w]
    show ?thesis by simp
  qed
  have image: "\<exists>k. 1 \<le> k \<and> k \<le> 3 \<and>
          map req_url (sent (snd (SaveImage c ow path width st w)))
            = map req_url (sent w) @ replicate k
                (CamerasGetImagePath (Dropcam c) @ ''?'' @ Encode (image_query ow width))"
    using getRequest_sent [of "Dropcam c" "CamerasGetImagePath (Dropcam c)" "image_query ow width" w]
    by (simp only: SaveImage_sent getImage_world)
  have props: "map req_url (sent (snd (SetProperties c ow name value w)))
        = map req_url (sent w) @ [PropertiesPath (Dropcam c) @ Uuid ow]"
    by (simp only: SetProperties_world postRequest_sent) simp
  from cameras events image props show ?thesis by blast
qed

theorem Cameras_logs_in_first_witness:
  "fst (Dropcam_Cameras alice_logged_out (world []))
     = (None, Some (errors_New ''Login Request Failed: connection refused''))
   \<and> hd (map req_url (sent (snd (snd (Dropcam_Cameras alice_logged_out (world []))))))
     = ''https://www.dropcam.com/api/v1/login.login?password=secret&username=alice''"
proof -
  have empty: "Cookie alice_logged_out = ''''"
    by (simp add: alice_logged_out_def)
  have failed: "fst (login alice_logged_out (world []))
                  = Some (errors_New ''Login Request Failed: connection refused'')"
    by (simp add: net_run lib_run ex_run)
  have who: "LoginPath alice_logged_out = ''https://www.dropcam.com/api/v1/login.login''"
    "QueryEscape (Password (Creds alice_logged_out)) = ''secret''"
    "QueryEscape (Username (Creds alice_logged_out)) = ''alice''"
    "sent (world []) = []"
    by (simp_all add: net_run ex_run)
  from Cameras_logs_in_first [of alice_logged_out "world []"
         "errors_New ''Login Request Failed: connection refused''"] empty failed
  have "(\<exists>rest. map req_url (sent (snd (snd (Dropcam_Cameras alice_logged_out (world [])))))
           = ''https://www.dropcam.com/api/v1/login.login?password=secret&username=alice'' # rest)
        \<and> fst (Dropcam_Cameras alice_logged_out (world []))
           = (None, Some (errors_New ''Login Request Failed: connection refused''))"
    by (simp add: who)
  then show ?thesis by auto
qed

text \<open>
  The claim as stated fails. With an empty cookie \<open>GetEvents\<close> sends its request and no
  login request; and \<open>Cameras\<close>, after a login that succeeds, returns neither a camera list
  nor an error and never asks for the cameras.
\<close>

theorem no_login_before_the_call:
  \<open>Cookie (Dropcam stale_cameras) = ''''
   \<and> map req_url (sent (snd (GetEvents stale_cameras front_door 1000000 2000000
          (world [Inr (reply 200 [] ''{}'')]))))
     = [''https://nexusapi.dropcam.com/get_cuepoint?end_time=1913600&human=True&start_time=1000000&uuid=u1'']
   \<and> fst (Dropcam_Cameras alice_logged_out
          (world [Inr (reply 200 [(''Set-Cookie'', [''abc123''])] ''''),
                  Inr (reply 200 [] ''{"items":[{"owned":[{"uuid":"u1"}]}],"status":200}'')]))
     = (None, None)
   \<and> map req_url (sent (snd (snd (Dropcam_Cameras alice_logged_out
          (world [Inr (reply 200 [(''Set-Cookie'', [''abc123''])] ''''),
                  Inr (reply 200 [] ''{"items":[{"owned":[{"uuid":"u1"}]}],"status":200}'')])))))
     = [''https://www.dropcam.com/api/v1/login.login?password=secret&username=alice'']\<close>
  by (simp add: json_run net_run lib_run ex_run)

section \<open>Which failures reach the caller\<close>

text \<open>The two loops of \<open>Cameras\<close> collect the owned cameras of every item, in order.\<close>

lemma collect_owned:
  "foldl (\<lambda>acc items. foldl (\<lambda>acc owned. acc @ [owned]) acc (Owned items)) acc its
     = acc @ concat (map Owned its)"
proof -
  have inner: "foldl (\<lambda>acc owned. acc @ [owned]) acc xs = acc @ xs" for acc xs :: "Owned list"
    by (induction xs arbitrary: acc) simp_all
  show ?thesis
    by (induction its arbitrary: acc) (simp_all add: inner)
qed

text \<open>
  The failures that an operation tests reach its caller as an error with no result: a
  request that gets no response, in \<open>login\<close>, \<open>Cameras\<close>, \<open>GetEvents\<close> and \<open>getImage\<close>;
  a body that does not decode, in \<open>Cameras\<close> and \<open>GetEvents\<close>; a body whose read fails,
  in \<open>GetEvents\<close> and \<open>getImage\<close>; a file that cannot be written, in \<open>SaveImage\<close>.
\<close>

lemma login_failure:
  "fst (getRequest d (LoginPath d) (login_query d) w) = Inl e \<Longrightarrow>
   fst (login d w) = Some (errors_New (''Login Request Failed: '' @ Error e))"
  by (cases "getRequest d (LoginPath d) (login_query d) w") (simp add: login_def Let_def)

lemma Cameras_failures:
  assumes "Cookie d \<noteq> ''''"
  shows "fst (getRequest d (CamerasGetVisible d) cameras_query w) = Inl e \<Longrightarrow>
           fst (Dropcam_Cameras d w) = (None, Some (errors_New ''Get Visible Cameras Request Failed''))"
    and "fst (getRequest d (CamerasGetVisible d) cameras_query w) = Inr response \<Longrightarrow>
           Unmarshal_Cam (unread (Body response)) Cam_zero = Inl e \<Longrightarrow>
           fst (Dropcam_Cameras d w) = (None, Some e)"
  using assms
  by (cases "getRequest d (CamerasGetVisible d) cameras_query w";
      simp add: Dropcam_Cameras_def Let_def ReadAll_def)+

lemma GetEvents_failures:
  "fst (getRequest (Dropcam c) (EventPath (Dropcam c)) (event_query ow st et) w) = Inl e \<Longrightarrow>
     fst (GetEvents c ow st et w) = Inl (errors_New ''Get Visible Cameras Request Failed'')"
  "fst (getRequest (Dropcam c) (EventPath (Dropcam c)) (event_query ow st et) w) = Inr response \<Longrightarrow>
     read_err (Body response) = Some e \<Longrightarrow>
     fst (GetEvents c ow st et w) = Inl (errors_New ''EVent ioutil.ReadAll failed'')"
  "fst (getRequest (Dropcam c) (EventPath (Dropcam c)) (event_query ow st et) w) = Inr response \<Longrightarrow>
     read_err (Body response) = None \<Longrightarrow>
     Unmarshal_Events (unread (Body response)) Events = Inl e \<Longrightarrow>
     fst (GetEvents c ow st et w) = Inl e"
  by (cases "getRequest (Dropcam c) (EventPath (Dropcam c)) (event_query ow st et) w";
      simp add: GetEvents_def Let_def ReadAll_def)+

lemma getImage_failures:
  "fst (getRequest (Dropcam c) (CamerasGetImagePath (Dropcam c)) (image_query ow width) w) = Inl e \<Longrightarrow>
     fst (getImage c ow width st w) = Inl (errors_New ''Get Image Failed'')"
  "fst (getRequest (Dropcam c) (CamerasGetImagePath (Dropcam c)) (image_query ow width) w) = Inr response \<Longrightarrow>
     read_err (Body response) = Some e \<Longrightarrow>
     fst (getImage c ow width st w) = Inl (errors_New ''Failed to get Reply Response Code'')"
  by (cases "getRequest (Dropcam c) (CamerasGetImagePath (Dropcam c)) (image_query ow width) w";
      simp add: getImage_def Let_def ReadAll_def)+

lemma SaveImage_write_failure:
  assumes "fst (getImage c ow width st w) = Inr img" and "unwritable w path = Some e"
  shows "fst (SaveImage c ow path width st w) = Some e"
proof -
  obtain w' where g: "getImage c ow width st w = (Inr img, w')"
    using assms(1) by (cases "getImage c ow width st w") simp
  then have "unwritable w' = unwritable w"
    using getImage_keeps(2) [of c ow width st w] by simp
  with g assms(2) show ?thesis
    by (simp add: SaveImage_def WriteFile_def)
qed

text \<open>
  The error of reading a body is not tested in two places. \<open>Cameras\<close> assigns it and
  overwrites it with the result of the decoding: whatever the read ended with, the bytes
  that were read decide. \<open>getBodyRespCode\<close> discards it.
\<close>

lemma Cameras_ignores_read_error:
  assumes "Cookie d \<noteq> ''''"
    and "fst (getRequest d (CamerasGetVisible d) cameras_query w) = Inr response"
    and "Unmarshal_Cam (unread (Body response)) Cam_zero = Inr cam"
  shows "fst (Dropcam_Cameras d w)
           = (Some \<lparr>Dropcam = d, Cam = concat (map Owned (Items cam))\<rparr>, None)"
  using assms
  by (cases "getRequest d (CamerasGetVisible d) cameras_query w")
     (simp add: Dropcam_Cameras_def Let_def ReadAll_def collect_owned)

lemma getBodyRespCode_ignores_read_error:
  "fst (getBodyRespCode (rb\<lparr>read_err := x\<rparr>)) = fst (getBodyRespCode rb)"
  by (simp add: getBodyRespCode_def ReadAll_def split: sum.splits)

text \<open>
  Claim C7 at a body whose read fails. The connection breaks after the last byte of a
  camera list: \<open>ioutil.ReadAll\<close> returns the bytes with an error, \<open>Cameras\<close> returns the
  list of one camera and no error, where \<open>GetEvents\<close> returns an error for the same answer
  of the network (and so does \<open>getImage\<close>, by \<open>getImage_failures\<close>). When the connection
  breaks after the bytes \<open>{"status":200}\<close>, \<open>postRequest\<close> returns without an error too.
\<close>

theorem Cameras_drops_read_error:
  \<open>read_err (Body (broken_reply 200 []
        ''{"items":[{"owned":[{"uuid":"u1","title":"Front Door"}]}],"status":200}''))
     = Some (ReadError ''connection reset by peer'')
   \<and> fst (Dropcam_Cameras alice (world [Inr (broken_reply 200 []
        ''{"items":[{"owned":[{"uuid":"u1","title":"Front Door"}]}],"status":200}'')]))
     = (Some \<lparr>Dropcam = alice, Cam = [front_door]\<rparr>, None)
   \<and> fst (GetEvents alice_cameras front_door 1000000 2000000 (world [Inr (broken_reply 200 []
        ''{"items":[{"owned":[{"uuid":"u1","title":"Front Door"}]}],"status":200}'')]))
     = Inl (errors_New ''EVent ioutil.ReadAll failed'')
   \<and> succeeded (fst (postRequest alice ''https://www.dropcam.com/app/cameras/propertiesu1'' ''u1''
        (JObject []) (world [Inr (broken_reply 200 [] ''{"status":200}'')])))\<close>
  by (simp add: json_run net_run lib_run ex_run)

end
